theory Spec2Isabelle
  imports Complex_Main "HOL-Library.Word"
begin

section \<open>Floating-point values\<close>

text \<open>
  The firmware computes with C \<^verbatim>\<open>float\<close> and the host with JavaScript numbers. Both are
  modelled by one type: a finite value is a real number, and the three special values of
  IEEE 754 are kept apart, so that every \<^verbatim>\<open>isnan\<close> test and every comparison of the source
  is a branch of the model. Arithmetic on finite values is exact (rounding and overflow of
  finite results are not modelled, and zero has no sign); arithmetic that involves a special
  value follows IEEE 754.
\<close>

datatype flt = Fin real | PInf | NInf | NaN

fun isnan :: "flt \<Rightarrow> bool" where
  "isnan NaN = True"
| "isnan _ = False"

fun isfinite :: "flt \<Rightarrow> bool" where
  "isfinite (Fin _) = True"
| "isfinite _ = False"

fun fneg :: "flt \<Rightarrow> flt" where
  "fneg (Fin x) = Fin (- x)"
| "fneg PInf = NInf"
| "fneg NInf = PInf"
| "fneg NaN = NaN"

text \<open>\<open>flt_less a b\<close> is the C and JavaScript comparison \<^verbatim>\<open>a < b\<close>: false when either is NaN.\<close>

fun flt_less :: "flt \<Rightarrow> flt \<Rightarrow> bool" where
  "flt_less (Fin x) (Fin y) = (x < y)"
| "flt_less (Fin x) PInf = True"
| "flt_less NInf (Fin y) = True"
| "flt_less NInf PInf = True"
| "flt_less _ _ = False"

text \<open>\<open>flt_le a b\<close> is \<^verbatim>\<open>a <= b\<close>.\<close>

fun flt_le :: "flt \<Rightarrow> flt \<Rightarrow> bool" where
  "flt_le (Fin x) (Fin y) = (x \<le> y)"
| "flt_le NaN _ = False"
| "flt_le _ NaN = False"
| "flt_le NInf _ = True"
| "flt_le _ PInf = True"
| "flt_le _ _ = False"

fun fadd :: "flt \<Rightarrow> flt \<Rightarrow> flt" where
  "fadd (Fin x) (Fin y) = Fin (x + y)"
| "fadd NaN _ = NaN"
| "fadd _ NaN = NaN"
| "fadd PInf NInf = NaN"
| "fadd NInf PInf = NaN"
| "fadd PInf _ = PInf"
| "fadd NInf _ = NInf"
| "fadd _ PInf = PInf"
| "fadd _ NInf = NInf"

definition fsub :: "flt \<Rightarrow> flt \<Rightarrow> flt" where
  "fsub a b = fadd a (fneg b)"

text \<open>The sign of a value, as the product and the quotient of special values need it.\<close>

fun fsign :: "flt \<Rightarrow> int" where
  "fsign (Fin x) = (if x < 0 then - 1 else if x = 0 then 0 else 1)"
| "fsign PInf = 1"
| "fsign NInf = - 1"
| "fsign NaN = 0"

definition inf_of_sign :: "int \<Rightarrow> flt" where
  "inf_of_sign s = (if s = 0 then NaN else if 0 < s then PInf else NInf)"

fun fmul :: "flt \<Rightarrow> flt \<Rightarrow> flt" where
  "fmul (Fin x) (Fin y) = Fin (x * y)"
| "fmul NaN _ = NaN"
| "fmul _ NaN = NaN"
| "fmul a b = inf_of_sign (fsign a * fsign b)"

fun fdiv :: "flt \<Rightarrow> flt \<Rightarrow> flt" where
  "fdiv (Fin x) (Fin y) = (if y = 0 then inf_of_sign (fsign (Fin x)) else Fin (x / y))"
| "fdiv NaN _ = NaN"
| "fdiv _ NaN = NaN"
| "fdiv (Fin x) _ = Fin 0"
| "fdiv a (Fin y) = inf_of_sign (fsign a * (if y < 0 then - 1 else 1))"
| "fdiv _ _ = NaN"

fun fsqrt :: "flt \<Rightarrow> flt" where
  "fsqrt (Fin x) = (if x < 0 then NaN else Fin (sqrt x))"
| "fsqrt PInf = PInf"
| "fsqrt _ = NaN"

text \<open>\<^verbatim>\<open>pow(x, 2)\<close>.\<close>

fun fpow2 :: "flt \<Rightarrow> flt" where
  "fpow2 (Fin x) = Fin (x * x)"
| "fpow2 NaN = NaN"
| "fpow2 _ = PInf"

fun fatan :: "flt \<Rightarrow> flt" where
  "fatan (Fin x) = Fin (arctan x)"
| "fatan PInf = Fin (pi / 2)"
| "fatan NInf = Fin (- (pi / 2))"
| "fatan NaN = NaN"

text \<open>
  The Arduino core defines \<^verbatim>\<open>abs\<close> and \<^verbatim>\<open>constrain\<close> as macros:
  \<^verbatim>\<open>abs(x) ((x)>0?(x):-(x))\<close> and
  \<^verbatim>\<open>constrain(amt,low,high) ((amt)<(low)?(low):((amt)>(high)?(high):(amt)))\<close>.
\<close>

definition abs_macro :: "flt \<Rightarrow> flt" where
  "abs_macro x = (if flt_less (Fin 0) x then x else fneg x)"

definition constrain :: "flt \<Rightarrow> flt \<Rightarrow> flt \<Rightarrow> flt" where
  "constrain amt low high =
     (if flt_less amt low then low else if flt_less high amt then high else amt)"

section \<open>Strings\<close>

text \<open>
  The string operations of the two languages that the protocol code uses:
  \<^verbatim>\<open>startsWith\<close> (JavaScript and Arduino \<^verbatim>\<open>String\<close>), \<^verbatim>\<open>replace\<close> with a string pattern
  and the empty replacement (the first occurrence only), \<^verbatim>\<open>split\<close> on one character,
  \<^verbatim>\<open>parseInt\<close> without a radix, and Arduino's \<^verbatim>\<open>substring(from)\<close>, \<^verbatim>\<open>toInt\<close> (C \<^verbatim>\<open>atol\<close>) and
  \<^verbatim>\<open>String(int)\<close>. Strings are byte strings; only ASCII white space is recognised.
\<close>

definition starts_with :: "string \<Rightarrow> string \<Rightarrow> bool" where
  "starts_with p s = (take (length p) s = p)"

fun replace_first :: "string \<Rightarrow> string \<Rightarrow> string" where
  "replace_first p [] = []"
| "replace_first p (c # cs) =
     (if starts_with p (c # cs) then drop (length p) (c # cs) else c # replace_first p cs)"

fun split_on :: "char \<Rightarrow> string \<Rightarrow> string list" where
  "split_on sep [] = [[]]"
| "split_on sep (c # cs) =
     (if c = sep then [] # split_on sep cs
      else (case split_on sep cs of [] \<Rightarrow> [[c]] | r # rs \<Rightarrow> (c # r) # rs))"

text \<open>Indexing a JavaScript array out of range gives \<^verbatim>\<open>undefined\<close>.\<close>

definition nth_opt :: "'a list \<Rightarrow> nat \<Rightarrow> 'a option" where
  "nth_opt xs i = (if i < length xs then Some (xs ! i) else None)"

definition is_space :: "char \<Rightarrow> bool" where
  "is_space c = (c \<in> set [CHR 0x09, CHR 0x0A, CHR 0x0B, CHR 0x0C, CHR 0x0D, CHR '' ''])"

definition digit_val :: "char \<Rightarrow> nat option" where
  "digit_val c = map_of (zip ''0123456789'' [0, 1, 2, 3, 4, 5, 6, 7, 8, 9]) c"

definition hex_val :: "char \<Rightarrow> nat option" where
  "hex_val c =
     (case digit_val c of Some v \<Rightarrow> Some v
      | None \<Rightarrow> (case map_of (zip ''abcdef'' [10, 11, 12, 13, 14, 15]) c of Some v \<Rightarrow> Some v
         | None \<Rightarrow> map_of (zip ''ABCDEF'' [10, 11, 12, 13, 14, 15]) c))"

text \<open>
  The value of the longest prefix of digits, most significant first; \<open>None\<close> when the
  string does not start with a digit.
\<close>

fun digits_value :: "(char \<Rightarrow> nat option) \<Rightarrow> nat \<Rightarrow> nat \<Rightarrow> string \<Rightarrow> nat" where
  "digits_value dv radix acc [] = acc"
| "digits_value dv radix acc (c # cs) =
     (case dv c of None \<Rightarrow> acc | Some v \<Rightarrow> digits_value dv radix (acc * radix + v) cs)"

definition leading_digits :: "(char \<Rightarrow> nat option) \<Rightarrow> nat \<Rightarrow> string \<Rightarrow> nat option" where
  "leading_digits dv radix s =
     (case s of [] \<Rightarrow> None
      | c # cs \<Rightarrow> (if dv c = None then None else Some (digits_value dv radix 0 s)))"

definition strip_sign :: "string \<Rightarrow> bool \<times> string" where
  "strip_sign s =
     (case s of [] \<Rightarrow> (False, [])
      | c # cs \<Rightarrow> if c = CHR ''-'' then (True, cs) else if c = CHR ''+'' then (False, cs)
                 else (False, s))"

text \<open>\<^verbatim>\<open>parseInt(s)\<close>; \<open>None\<close> is NaN.\<close>

definition parseInt :: "string \<Rightarrow> int option" where
  "parseInt s =
     (let (neg, t) = strip_sign (dropWhile is_space s);
          r = (if starts_with ''0x'' t \<or> starts_with ''0X'' t
               then leading_digits hex_val 16 (drop 2 t)
               else leading_digits digit_val 10 t)
      in case r of None \<Rightarrow> None | Some n \<Rightarrow> Some (if neg then - int n else int n))"

text \<open>
  \<^verbatim>\<open>String::toInt\<close> is \<^verbatim>\<open>atol\<close>: white space, a sign, digits; 0 when there are no digits.
  The result is a \<^verbatim>\<open>long\<close>, 32 bits on the AVR boards the sketch is written for; the C
  library accumulates the digits in a \<^verbatim>\<open>long\<close> without an overflow check, so the result is
  the value of the digits modulo \<open>2 ^ 32\<close>.
\<close>

definition toInt :: "string \<Rightarrow> 32 word" where
  "toInt s =
     (let (neg, t) = strip_sign (dropWhile is_space s);
          n = digits_value digit_val 10 0 t
      in if neg then - of_nat n else of_nat n)"

text \<open>
  The conversion of a \<^verbatim>\<open>long\<close> to an \<^verbatim>\<open>int\<close>, which has 16 bits there: the low 16 bits,
  read as signed.
\<close>

definition int_of_long :: "32 word \<Rightarrow> int" where
  "int_of_long w = sint (ucast w :: 16 word)"

definition digit_char :: "nat \<Rightarrow> char" where
  "digit_char n = ''0123456789'' ! (n mod 10)"

fun nat_digits :: "nat \<Rightarrow> string" where
  "nat_digits n = (if n < 10 then [digit_char n] else nat_digits (n div 10) @ [digit_char n])"

declare nat_digits.simps [simp del]

text \<open>\<^verbatim>\<open>String(n)\<close> for an \<^verbatim>\<open>int\<close>: decimal, with a minus sign when negative.\<close>

definition String_of_int :: "int \<Rightarrow> string" where
  "String_of_int i = (if i < 0 then CHR ''-'' # nat_digits (nat (- i)) else nat_digits (nat i))"

section \<open>Host: frame parser and validator\<close>

subsection \<open>JSON values and the telemetry schema\<close>

text \<open>
  \<^verbatim>\<open>JSON.parse\<close> is a builtin of the host runtime; the parser takes it as a parameter that
  returns \<open>None\<close> where the builtin throws \<^verbatim>\<open>SyntaxError\<close>. A decoded object lists its
  properties, one entry for each key. A decoded number is never NaN but can be infinite
  (\<^verbatim>\<open>1e999\<close>).
\<close>

datatype json =
  JNull | JBool bool | JNumber flt | JString string | JArray "json list"
  | JObject "(string \<times> json) list"

record RawSensorData =
  accelX :: flt
  accelY :: flt
  accelZ :: flt
  gyroX :: flt
  gyroY :: flt
  gyroZ :: flt

record Angles =
  roll :: flt
  pitch :: flt
  yaw :: flt

record ArduinoData =
  sessionId :: string
  timestamp :: flt
  exerciseType :: flt
  rawSensorData :: RawSensorData
  angles :: Angles
  kneeAngle :: flt
  temperature :: flt

text \<open>
  The checks of \<^verbatim>\<open>arduinoDataSchema\<close>. Each takes the property as the object has it
  (\<open>None\<close> when the key is missing) and returns \<open>None\<close> where zod reports an issue.
  \<^verbatim>\<open>z.number()\<close> accepts every number but NaN; \<^verbatim>\<open>.int()\<close> is \<^verbatim>\<open>Number.isInteger\<close>;
  \<^verbatim>\<open>.min(0).max(2)\<close> are inclusive bounds. \<^verbatim>\<open>z.object\<close> accepts an object, drops the keys
  it does not know and checks each key it knows.
\<close>

definition z_string :: "json option \<Rightarrow> string option" where
  "z_string v = (case v of Some (JString s) \<Rightarrow> Some s | _ \<Rightarrow> None)"

definition z_number :: "json option \<Rightarrow> flt option" where
  "z_number v = (case v of Some (JNumber n) \<Rightarrow> (if isnan n then None else Some n) | _ \<Rightarrow> None)"

definition is_integer :: "flt \<Rightarrow> bool" where
  "is_integer n = (case n of Fin x \<Rightarrow> x = of_int \<lfloor>x\<rfloor> | _ \<Rightarrow> False)"

definition z_exerciseType :: "json option \<Rightarrow> flt option" where
  "z_exerciseType v =
     (case z_number v of None \<Rightarrow> None
      | Some n \<Rightarrow> (if is_integer n \<and> flt_le (Fin 0) n \<and> flt_le n (Fin 2) then Some n else None))"

definition z_rawSensorData :: "json option \<Rightarrow> RawSensorData option" where
  "z_rawSensorData v =
     (case v of
        Some (JObject kvs) \<Rightarrow>
          (case (z_number (map_of kvs ''accelX''), z_number (map_of kvs ''accelY''),
                 z_number (map_of kvs ''accelZ''), z_number (map_of kvs ''gyroX''),
                 z_number (map_of kvs ''gyroY''), z_number (map_of kvs ''gyroZ'')) of
             (Some ax, Some ay, Some az, Some gx, Some gy, Some gz) \<Rightarrow>
               Some \<lparr>accelX = ax, accelY = ay, accelZ = az, gyroX = gx, gyroY = gy, gyroZ = gz\<rparr>
           | _ \<Rightarrow> None)
      | _ \<Rightarrow> None)"

definition z_angles :: "json option \<Rightarrow> Angles option" where
  "z_angles v =
     (case v of
        Some (JObject kvs) \<Rightarrow>
          (case (z_number (map_of kvs ''roll''), z_number (map_of kvs ''pitch''),
                 z_number (map_of kvs ''yaw'')) of
             (Some r, Some p, Some y) \<Rightarrow> Some \<lparr>roll = r, pitch = p, yaw = y\<rparr>
           | _ \<Rightarrow> None)
      | _ \<Rightarrow> None)"

text \<open>\<^verbatim>\<open>arduinoDataSchema.parse\<close>; \<open>None\<close> where it throws \<^verbatim>\<open>ZodError\<close>.\<close>

definition arduinoDataSchema_parse :: "json \<Rightarrow> ArduinoData option" where
  "arduinoDataSchema_parse v =
     (case v of
        JObject kvs \<Rightarrow>
          (case (z_string (map_of kvs ''sessionId''), z_number (map_of kvs ''timestamp''),
                 z_exerciseType (map_of kvs ''exerciseType''),
                 z_rawSensorData (map_of kvs ''rawSensorData''),
                 z_angles (map_of kvs ''angles''), z_number (map_of kvs ''kneeAngle''),
                 z_number (map_of kvs ''temperature'')) of
             (Some sid, Some ts, Some et, Some raw, Some ang, Some knee, Some temp) \<Rightarrow>
               Some \<lparr>sessionId = sid, timestamp = ts, exerciseType = et, rawSensorData = raw,
                     angles = ang, kneeAngle = knee, temperature = temp\<rparr>
           | _ \<Rightarrow> None)
      | _ \<Rightarrow> None)"

subsection \<open>Line classification\<close>

text \<open>
  What \<^verbatim>\<open>handleArduinoData\<close> does with one line: the events it emits on the service and
  the reading it hands to the store. The whole body is inside \<^verbatim>\<open>try\<close>; the \<^verbatim>\<open>catch\<close>
  emits \<^verbatim>\<open>parseError\<close> with the error and the raw line.
\<close>

datatype parse_failure = SyntaxError | ZodError

datatype serial_event =
  KneeData ArduinoData
  | SessionStarted string
  | SessionStopped
  | CalibrationComplete
  | SystemReady
  | Status bool string int
  | Message string
  | ParseError parse_failure string
  | Connected string
  | Disconnected
  | ErrorEvent

datatype effect = Emit serial_event | StoreSensorReading ArduinoData

definition handleArduinoData :: "(string \<Rightarrow> json option) \<Rightarrow> string \<Rightarrow> effect list" where
  "handleArduinoData JSON_parse data =
     (if starts_with ''KNEE_DATA:'' data then
        (case JSON_parse (replace_first ''KNEE_DATA:'' data) of
           None \<Rightarrow> [Emit (ParseError SyntaxError data)]
         | Some parsedData \<Rightarrow>
             (case arduinoDataSchema_parse parsedData of
                None \<Rightarrow> [Emit (ParseError ZodError data)]
              | Some validatedData \<Rightarrow>
                  [Emit (KneeData validatedData), StoreSensorReading validatedData]))
      else if starts_with ''SESSION_STARTED:'' data then
        [Emit (SessionStarted (replace_first ''SESSION_STARTED:'' data))]
      else if data = ''SESSION_STOPPED'' then [Emit SessionStopped]
      else if data = ''CALIBRATION_COMPLETE'' then [Emit CalibrationComplete]
      else if data = ''SYSTEM_READY'' then [Emit SystemReady]
      else if starts_with ''STATUS:'' data then
        (let statusParts = split_on (CHR '':'') (replace_first ''STATUS:'' data)
         in [Emit (Status (nth_opt statusParts 0 = Some ''RECORDING'')
                     (case nth_opt statusParts 1 of None \<Rightarrow> [] | Some t \<Rightarrow> t)
                     (case nth_opt statusParts 2 of None \<Rightarrow> 0
                      | Some t \<Rightarrow> (case parseInt t of None \<Rightarrow> 0 | Some n \<Rightarrow> n)))])
      else [Emit (Message data)])"

text \<open>
  The readline parser calls the handler once for each line, in order; the handler keeps
  no state between lines.
\<close>

definition handleLines :: "(string \<Rightarrow> json option) \<Rightarrow> string list \<Rightarrow> effect list" where
  "handleLines JSON_parse ls = concat (map (handleArduinoData JSON_parse) ls)"

section \<open>Host: session statistics of the dashboard\<close>

text \<open>\<^verbatim>\<open>Math.max\<close>, \<^verbatim>\<open>Math.min\<close> and \<^verbatim>\<open>Math.abs\<close>: NaN when an argument is NaN.\<close>

definition js_max :: "flt \<Rightarrow> flt \<Rightarrow> flt" where
  "js_max a b = (if isnan a \<or> isnan b then NaN else if flt_less a b then b else a)"

definition js_min :: "flt \<Rightarrow> flt \<Rightarrow> flt" where
  "js_min a b = (if isnan a \<or> isnan b then NaN else if flt_less b a then b else a)"

definition js_abs :: "flt \<Rightarrow> flt" where
  "js_abs a = (if flt_less a (Fin 0) then fneg a else a)"

text \<open>\<^verbatim>\<open>x || 0\<close> for an optional number: 0 when \<^verbatim>\<open>x\<close> is undefined, 0 or NaN.\<close>

definition or_zero :: "flt option \<Rightarrow> flt" where
  "or_zero x = (case x of None \<Rightarrow> Fin 0 | Some q \<Rightarrow> if q = Fin 0 \<or> isnan q then Fin 0 else q)"

record SessionStats =
  duration :: int
  readingCount :: nat
  maxAngle :: flt
  avgAngle :: flt
  qualityScore :: "flt option"

text \<open>
  The state of the \<^verbatim>\<open>Dashboard\<close> component (its \<^verbatim>\<open>useState\<close> cells). Times are
  milliseconds as \<^verbatim>\<open>Date.now()\<close> gives them.
\<close>

record Dashboard =
  isConnected :: bool
  n8nConnected :: bool
  latestData :: "ArduinoData option"
  currentSessionId :: "string option"
  sessionStartTime :: "nat option"
  sessionStats :: "SessionStats option"

definition initial_dashboard :: Dashboard where
  "initial_dashboard =
     \<lparr>isConnected = False, n8nConnected = False, latestData = None,
      currentSessionId = None, sessionStartTime = None, sessionStats = None\<rparr>"

text \<open>The statistics that \<^verbatim>\<open>session_started\<close> and \<^verbatim>\<open>handleSessionStart\<close> install.\<close>

definition zero_stats :: SessionStats where
  "zero_stats = \<lparr>duration = 0, readingCount = 0, maxAngle = Fin 0, avgAngle = Fin 0,
                  qualityScore = None\<rparr>"

text \<open>
  \<^verbatim>\<open>updateSessionStats(data)\<close>; \<open>now\<close> is \<^verbatim>\<open>Date.now()\<close> at the call. The first guard is
  \<^verbatim>\<open>if (!sessionStartTime) return\<close>, which also holds for a start time of 0; the updater
  returns \<^verbatim>\<open>null\<close> when there are no statistics.
\<close>

definition updateSessionStats :: "nat \<Rightarrow> ArduinoData \<Rightarrow> Dashboard \<Rightarrow> Dashboard" where
  "updateSessionStats now data dash =
     (case sessionStartTime dash of
        None \<Rightarrow> dash
      | Some start \<Rightarrow>
          if start = 0 then dash
          else (case sessionStats dash of
                  None \<Rightarrow> dash\<lparr>sessionStats := None\<rparr>
                | Some prev \<Rightarrow>
                    (let duration' = int now - int start;
                         readingCount' = readingCount prev + 1;
                         maxAngle' = js_max (maxAngle prev) (kneeAngle data);
                         avgAngle' =
                           fdiv (fadd (fmul (avgAngle prev) (Fin (real (readingCount prev))))
                                      (kneeAngle data))
                                (Fin (real readingCount'));
                         targetRange = Fin 90;
                         angleScore =
                           js_max (Fin 0)
                             (fsub (Fin 10)
                                (fdiv (js_abs (fsub (kneeAngle data) targetRange)) (Fin 10)));
                         qualityScore' =
                           js_min (Fin 10)
                             (fdiv (fadd angleScore (or_zero (qualityScore prev))) (Fin 2))
                     in dash\<lparr>sessionStats :=
                          Some \<lparr>duration = duration', readingCount = readingCount',
                                maxAngle = maxAngle', avgAngle = avgAngle',
                                qualityScore = Some qualityScore'\<rparr>\<rparr>)))"

text \<open>The messages of the live channel that the dashboard reacts to.\<close>

datatype ws_message =
  StatusMsg bool bool
  | ArduinoConnectedMsg
  | ArduinoDisconnectedMsg
  | KneeDataMsg ArduinoData
  | SessionStartedMsg string
  | SessionStoppedMsg
  | ErrorMsg
  | OtherMsg

definition onMessage :: "nat \<Rightarrow> ws_message \<Rightarrow> Dashboard \<Rightarrow> Dashboard" where
  "onMessage now msg dash =
     (case msg of
        StatusMsg arduino n8n \<Rightarrow> dash\<lparr>isConnected := arduino, n8nConnected := n8n\<rparr>
      | ArduinoConnectedMsg \<Rightarrow> dash\<lparr>isConnected := True\<rparr>
      | ArduinoDisconnectedMsg \<Rightarrow> dash\<lparr>isConnected := False, latestData := None\<rparr>
      | KneeDataMsg data \<Rightarrow> updateSessionStats now data (dash\<lparr>latestData := Some data\<rparr>)
      | SessionStartedMsg sid \<Rightarrow>
          dash\<lparr>currentSessionId := Some sid, sessionStartTime := Some now,
               sessionStats := Some zero_stats\<rparr>
      | SessionStoppedMsg \<Rightarrow>
          dash\<lparr>currentSessionId := None, sessionStartTime := None, sessionStats := None\<rparr>
      | ErrorMsg \<Rightarrow> dash
      | OtherMsg \<Rightarrow> dash)"

text \<open>A run of telemetry frames, each with the clock reading at its arrival.\<close>

definition recordReadings :: "(nat \<times> ArduinoData) list \<Rightarrow> Dashboard \<Rightarrow> Dashboard" where
  "recordReadings fs dash = fold (\<lambda>f. onMessage (fst f) (KneeDataMsg (snd f))) fs dash"

text \<open>A frame that carries a given joint angle and session id; the other fields are zero.\<close>

definition frame_of :: "string \<Rightarrow> flt \<Rightarrow> ArduinoData" where
  "frame_of sid knee =
     \<lparr>sessionId = sid, timestamp = Fin 0, exerciseType = Fin 0,
      rawSensorData = \<lparr>accelX = Fin 0, accelY = Fin 0, accelZ = Fin 0,
                       gyroX = Fin 0, gyroY = Fin 0, gyroZ = Fin 0\<rparr>,
      angles = \<lparr>roll = Fin 0, pitch = Fin 0, yaw = Fin 0\<rparr>,
      kneeAngle = knee, temperature = Fin 0\<rparr>"

section \<open>Host: asynchronous operations\<close>

text \<open>
  An \<^verbatim>\<open>async\<close> function returns a promise. The model runs each call to the point where
  its promise settles, or finds that nothing settles it: the promise then stays pending.
\<close>

datatype 'a promise = Resolved 'a | Rejected | Pending

subsection \<open>Analytics forwarder\<close>

datatype n8n_event =
  DataSent ArduinoData
  | N8nError
  | RecommendationsReceived string "json list"

record N8nService =
  isConnected :: bool
  n8nEmitted :: "n8n_event list"

text \<open>
  What \<^verbatim>\<open>fetch\<close> does with one request: it resolves with a response (\<^verbatim>\<open>response.ok\<close>, and
  the value of \<^verbatim>\<open>response.json()\<close>, \<open>None\<close> where that throws), it rejects, or it never
  settles. The call passes no timeout and no abort signal.
\<close>

datatype fetch_behaviour = FetchResponds bool "json option" | FetchRejects | FetchSilent

text \<open>
  \<^verbatim>\<open>result.recommendations && Array.isArray(result.recommendations)\<close>: \<open>Inl ()\<close> where the
  property access throws (\<^verbatim>\<open>result\<close> is \<^verbatim>\<open>null\<close>), \<open>Inr None\<close> when the test is false.
\<close>

definition recommendations_of :: "json \<Rightarrow> unit + json list option" where
  "recommendations_of result =
     (case result of
        JNull \<Rightarrow> Inl ()
      | JObject kvs \<Rightarrow> (case map_of kvs ''recommendations'' of
                         Some (JArray recs) \<Rightarrow> Inr (Some recs) | _ \<Rightarrow> Inr None)
      | _ \<Rightarrow> Inr None)"

text \<open>
  \<^verbatim>\<open>sendSensorData\<close>. The store that \<^verbatim>\<open>processRecommendations\<close> writes to is outside the
  model; its calls are taken to settle.
\<close>

definition sendSensorData ::
  "fetch_behaviour \<Rightarrow> ArduinoData \<Rightarrow> N8nService \<Rightarrow> N8nService \<times> unit promise" where
  "sendSensorData fb data s =
     (case fb of
        FetchSilent \<Rightarrow> (s, Pending)
      | FetchRejects \<Rightarrow>
          (s\<lparr>isConnected := False, n8nEmitted := n8nEmitted s @ [N8nError]\<rparr>, Resolved ())
      | FetchResponds ok body \<Rightarrow>
          if ok then
            (case body of
               None \<Rightarrow>
                 (s\<lparr>isConnected := False, n8nEmitted := n8nEmitted s @ [N8nError]\<rparr>,
                  Resolved ())
             | Some result \<Rightarrow>
                 (case recommendations_of result of
                    Inl _ \<Rightarrow>
                      (s\<lparr>isConnected := False, n8nEmitted := n8nEmitted s @ [N8nError]\<rparr>,
                       Resolved ())
                  | Inr None \<Rightarrow>
                      (s\<lparr>isConnected := True, n8nEmitted := n8nEmitted s @ [DataSent data]\<rparr>,
                       Resolved ())
                  | Inr (Some recs) \<Rightarrow>
                      (s\<lparr>isConnected := True,
                         n8nEmitted := n8nEmitted s
                           @ [RecommendationsReceived (sessionId data) recs, DataSent data]\<rparr>,
                       Resolved ())))
          else
            (s\<lparr>isConnected := False, n8nEmitted := n8nEmitted s @ [N8nError]\<rparr>, Resolved ()))"

subsection \<open>Link transport\<close>

text \<open>
  The service holds at most one \<^verbatim>\<open>SerialPort\<close> object in \<^verbatim>\<open>this.port\<close>, but every object it
  ever created keeps existing, and a port that was opened stays open until it is closed.
  \<open>ports\<close> is that heap: the handle of a port is its index, and an entry gives the path
  and whether the port is still opening, open, or closed (or failed to open).
  \<open>emitted\<close> are the events emitted on the service, oldest first; \<open>written\<close> is what was
  written to the link. The persisted port registry is outside the model.
\<close>

datatype port_state = Opening | Open | Closed

record SerialService =
  ports :: "(string \<times> port_state) list"
  port :: "nat option"
  parser :: "nat option"
  isConnected :: bool
  currentPortPath :: "string option"
  emitted :: "serial_event list"
  written :: "string list"

definition initial_service :: SerialService where
  "initial_service =
     \<lparr>ports = [], port = None, parser = None, isConnected = False,
      currentPortPath = None, emitted = [], written = []\<rparr>"

text \<open>\<^verbatim>\<open>port.isOpen\<close> of a handle.\<close>

definition isOpen :: "SerialService \<Rightarrow> nat \<Rightarrow> bool" where
  "isOpen s h = (h < length (ports s) \<and> snd (ports s ! h) = Open)"

definition set_port_state :: "nat \<Rightarrow> port_state \<Rightarrow> SerialService \<Rightarrow> SerialService" where
  "set_port_state h st s = s\<lparr>ports := (ports s)[h := (fst (ports s ! h), st)]\<rparr>"

text \<open>
  The \<^verbatim>\<open>close\<close> handler that \<^verbatim>\<open>connect\<close> registers on a port runs when that port closes,
  whoever closes it.
\<close>

definition on_close :: "nat \<Rightarrow> SerialService \<Rightarrow> SerialService" where
  "on_close h s =
     (set_port_state h Closed s)
       \<lparr>isConnected := False, currentPortPath := None, emitted := emitted s @ [Disconnected]\<rparr>"

text \<open>\<^verbatim>\<open>disconnect\<close>: always resolves.\<close>

definition disconnect :: "SerialService \<Rightarrow> SerialService" where
  "disconnect s =
     (case port s of
        Some h \<Rightarrow>
          if isOpen s h
          then (on_close h s)\<lparr>port := None, parser := None, isConnected := False,
                               currentPortPath := None\<rparr>
          else s\<lparr>port := None, parser := None, isConnected := False, currentPortPath := None\<rparr>
      | None \<Rightarrow> s\<lparr>port := None, parser := None, isConnected := False, currentPortPath := None\<rparr>)"

text \<open>
  \<^verbatim>\<open>connect(portPath)\<close> runs in two parts. The first part runs when the function is called,
  up to the point where it returns its promise: it awaits \<^verbatim>\<open>disconnect\<close> if the service is
  marked connected, creates the port and registers the handlers. The second part is a
  handler that runs when the new port fires \<^verbatim>\<open>open\<close> or \<^verbatim>\<open>error\<close>; the handlers know the
  port and the path they were registered for.
\<close>

definition connect_start :: "string \<Rightarrow> SerialService \<Rightarrow> SerialService" where
  "connect_start portPath s =
     (let s1 = (if isConnected s then disconnect s else s);
          h = length (ports s1)
      in s1\<lparr>ports := ports s1 @ [(portPath, Opening)], port := Some h, parser := Some h\<rparr>)"

definition on_open :: "nat \<Rightarrow> SerialService \<Rightarrow> SerialService" where
  "on_open h s =
     (set_port_state h Open s)
       \<lparr>isConnected := True, currentPortPath := Some (fst (ports s ! h)),
        emitted := emitted s @ [Connected (fst (ports s ! h))]\<rparr>"

definition on_error :: "nat \<Rightarrow> SerialService \<Rightarrow> SerialService" where
  "on_error h s = (set_port_state h Closed s)\<lparr>emitted := emitted s @ [ErrorEvent]\<rparr>"

text \<open>
  What the new link does after \<^verbatim>\<open>connect\<close> created it: the constructor throws, the port
  fires \<^verbatim>\<open>open\<close>, it fires \<^verbatim>\<open>error\<close> first, or it fires neither. \<^verbatim>\<open>connect\<close> starts no
  timer.
\<close>

datatype link_behaviour = ConstructorThrows | FiresOpen | FiresError | LinkSilent

text \<open>
  A call of \<^verbatim>\<open>connect\<close> that is awaited: both parts, with nothing else in between. The
  promise is returned without \<^verbatim>\<open>await\<close>, so its rejection is not caught by the \<^verbatim>\<open>try\<close> and
  reaches the caller; an exception of the constructor is caught.
\<close>

definition connect ::
  "link_behaviour \<Rightarrow> string \<Rightarrow> SerialService \<Rightarrow> SerialService \<times> bool promise" where
  "connect link portPath s =
     (if link = ConstructorThrows
      then (let s1 = (if isConnected s then disconnect s else s)
            in (s1\<lparr>emitted := emitted s1 @ [ErrorEvent]\<rparr>, Resolved False))
      else
        (let s2 = connect_start portPath s;
             h = length (ports s2) - 1
         in case link of
              FiresOpen \<Rightarrow> (on_open h s2, Resolved True)
            | FiresError \<Rightarrow> (on_error h s2, Rejected)
            | _ \<Rightarrow> (s2, Pending)))"

text \<open>The link goes away under an open port (the device is unplugged): its \<^verbatim>\<open>close\<close> fires.\<close>

definition link_closed :: "SerialService \<Rightarrow> SerialService" where
  "link_closed s =
     (case port s of Some h \<Rightarrow> if isOpen s h then on_close h s else s | None \<Rightarrow> s)"

text \<open>
  What \<^verbatim>\<open>port.write\<close> does with one request: its callback reports success, reports an
  error, or is never called. \<^verbatim>\<open>sendCommand\<close> starts no timer.
\<close>

datatype write_behaviour = WriteOk | WriteFails | WriteSilent

definition sendCommand ::
  "write_behaviour \<Rightarrow> string \<Rightarrow> SerialService \<Rightarrow> SerialService \<times> bool promise" where
  "sendCommand wb command s =
     (if port s = None \<or> \<not> isConnected s then (s, Resolved False)
      else (case wb of
              WriteOk \<Rightarrow> (s\<lparr>written := written s @ [command @ [CHR 0x0A]]\<rparr>, Resolved True)
            | WriteFails \<Rightarrow> (s, Resolved False)
            | WriteSilent \<Rightarrow> (s, Pending)))"


definition setExerciseType ::
  "write_behaviour \<Rightarrow> int \<Rightarrow> SerialService \<Rightarrow> SerialService \<times> bool promise" where
  "setExerciseType wb type s = sendCommand wb (''SET_EXERCISE:'' @ String_of_int type) s"



text \<open>
  Calls on the transport, one after the other: every call runs until its promise has
  settled or is left pending for good.
\<close>

datatype transport_call = Connect link_behaviour string | Disconnect | LinkClosed

definition transport_step :: "transport_call \<Rightarrow> SerialService \<Rightarrow> SerialService" where
  "transport_step c s =
     (case c of
        Connect link portPath \<Rightarrow> fst (connect link portPath s)
      | Disconnect \<Rightarrow> disconnect s
      | LinkClosed \<Rightarrow> link_closed s)"

definition transport_run :: "transport_call list \<Rightarrow> SerialService \<Rightarrow> SerialService" where
  "transport_run cs s = fold transport_step cs s"

text \<open>
  What the event loop runs when calls are not awaited: the first part of a \<^verbatim>\<open>connect\<close>, a
  \<^verbatim>\<open>disconnect\<close>, or the handler of a port that was still opening and now opens or fails.
\<close>

datatype transport_event = ConnectCalled string | DisconnectCalled | PortOpens nat | PortFails nat

definition event_step :: "transport_event \<Rightarrow> SerialService \<Rightarrow> SerialService" where
  "event_step e s =
     (case e of
        ConnectCalled portPath \<Rightarrow> connect_start portPath s
      | DisconnectCalled \<Rightarrow> disconnect s
      | PortOpens h \<Rightarrow>
          if h < length (ports s) \<and> snd (ports s ! h) = Opening then on_open h s else s
      | PortFails h \<Rightarrow>
          if h < length (ports s) \<and> snd (ports s ! h) = Opening then on_error h s else s)"

definition event_run :: "transport_event list \<Rightarrow> SerialService \<Rightarrow> SerialService" where
  "event_run es s = fold event_step es s"

text \<open>The handles that are open, and the number of opens that succeeded in a run.\<close>

definition live_handles :: "SerialService \<Rightarrow> nat list" where
  "live_handles s = filter (isOpen s) [0..<length (ports s)]"

definition successful_opens :: "transport_call list \<Rightarrow> nat" where
  "successful_opens cs =
     length (filter (\<lambda>c. case c of Connect link p \<Rightarrow> link = FiresOpen | _ \<Rightarrow> False) cs)"

definition connected_events :: "SerialService \<Rightarrow> nat" where
  "connected_events s =
     length (filter (\<lambda>e. case e of Connected p \<Rightarrow> True | _ \<Rightarrow> False) (emitted s))"

section \<open>Firmware\<close>

subsection \<open>Device state\<close>

text \<open>
  The sketch keeps its state in global variables; the record holds them under their own
  names. \<^verbatim>\<open>int16_t\<close> registers are 16-bit words read as signed, \<^verbatim>\<open>float\<close>s are \<open>flt\<close>.
  \<^verbatim>\<open>exerciseType\<close> is a C \<^verbatim>\<open>int\<close>, 16 bits on the AVR boards the sketch is written for. The
  record holds its value as an integer; the one assignment to it, in the command handler,
  narrows the value to 16 bits.
\<close>

record device =
  AcX :: "16 word"
  AcY :: "16 word"
  AcZ :: "16 word"
  Tmp :: "16 word"
  GyX :: "16 word"
  GyY :: "16 word"
  GyZ :: "16 word"
  roll :: flt
  pitch :: flt
  yaw :: flt
  currentTime :: flt
  previousTime :: flt
  accAngleX :: flt
  accAngleY :: flt
  gyroAngleX :: flt
  gyroAngleY :: flt
  gyroAngleZ :: flt
  elapsedTime :: flt
  AccErrorX :: flt
  AccErrorY :: flt
  GyroErrorX :: flt
  GyroErrorY :: flt
  GyroErrorZ :: flt
  sessionId :: string
  isRecording :: bool
  exerciseType :: int

text \<open>The complementary filter constant \<^verbatim>\<open>float alpha = 0.96\<close> is never assigned again.\<close>

definition alpha :: flt where
  "alpha = Fin (96 / 100)"

definition PI :: flt where
  "PI = Fin pi"

text \<open>An \<^verbatim>\<open>int16_t\<close> register converted to \<^verbatim>\<open>float\<close>.\<close>

definition float_of_int16 :: "16 word \<Rightarrow> flt" where
  "float_of_int16 w = Fin (real_of_int (sint w))"

text \<open>
  The globals as they are when \<^verbatim>\<open>setup\<close> reaches the calibration: C zero-initialises them,
  the calibration offsets and \<^verbatim>\<open>exerciseType\<close> have the initialiser 0, \<^verbatim>\<open>sessionId\<close> is empty.
\<close>

definition initial_device :: device where
  "initial_device =
     \<lparr>AcX = 0, AcY = 0, AcZ = 0, Tmp = 0, GyX = 0, GyY = 0, GyZ = 0,
      roll = Fin 0, pitch = Fin 0, yaw = Fin 0,
      currentTime = Fin 0, previousTime = Fin 0,
      accAngleX = Fin 0, accAngleY = Fin 0,
      gyroAngleX = Fin 0, gyroAngleY = Fin 0, gyroAngleZ = Fin 0,
      elapsedTime = Fin 0,
      AccErrorX = Fin 0, AccErrorY = Fin 0,
      GyroErrorX = Fin 0, GyroErrorY = Fin 0, GyroErrorZ = Fin 0,
      sessionId = [], isRecording = False, exerciseType = 0\<rparr>"

subsection \<open>Sensor read\<close>

text \<open>
  \<^verbatim>\<open>readMPU6050\<close> reads fourteen bytes over I2C into the seven registers. What the sensor
  delivers is the input of the model: one raw sample.
\<close>

record raw_sample =
  sAcX :: "16 word"
  sAcY :: "16 word"
  sAcZ :: "16 word"
  sTmp :: "16 word"
  sGyX :: "16 word"
  sGyY :: "16 word"
  sGyZ :: "16 word"

definition readMPU6050 :: "raw_sample \<Rightarrow> device \<Rightarrow> device" where
  "readMPU6050 smp d =
     d\<lparr>AcX := sAcX smp, AcY := sAcY smp, AcZ := sAcZ smp, Tmp := sTmp smp,
       GyX := sGyX smp, GyY := sGyY smp, GyZ := sGyZ smp\<rparr>"

subsection \<open>Sensor fusion\<close>

text \<open>
  \<^verbatim>\<open>calculateAngles\<close>, in the order of the source. \<open>millis\<close> is what \<^verbatim>\<open>millis()\<close> returns at the
  call (an \<^verbatim>\<open>unsigned long\<close>, converted to \<^verbatim>\<open>float\<close> by the assignment to \<^verbatim>\<open>currentTime\<close>).
\<close>

text \<open>\<^verbatim>\<open>elapsedTime = (currentTime - previousTime) / 1000.0\<close>, before the guard.\<close>

definition measuredElapsed :: "32 word \<Rightarrow> device \<Rightarrow> flt" where
  "measuredElapsed millis d =
     fdiv (fsub (Fin (real (unat millis))) (previousTime d)) (Fin 1000)"

text \<open>\<^verbatim>\<open>if (elapsedTime <= 0) elapsedTime = 0.001;\<close>\<close>

definition guardElapsed :: "flt \<Rightarrow> flt" where
  "guardElapsed e = (if flt_le e (Fin 0) then Fin (1 / 1000) else e)"

definition accelG :: "16 word \<Rightarrow> flt" where
  "accelG w = fdiv (float_of_int16 w) (Fin 16384)"

definition accelDenom :: "flt \<Rightarrow> flt \<Rightarrow> flt" where
  "accelDenom a b = fsqrt (fadd (fpow2 a) (fpow2 b))"

text \<open>The accelerometer angle about X, with its guard on the denominator.\<close>

definition accelAngleX :: "device \<Rightarrow> flt" where
  "accelAngleX d =
     (let accX = accelG (AcX d); accY = accelG (AcY d); accZ = accelG (AcZ d);
          denomX = accelDenom accX accZ
      in if flt_less (Fin (1 / 100)) denomX
         then fsub (fdiv (fmul (fatan (fdiv accY denomX)) (Fin 180)) PI) (AccErrorX d)
         else Fin 0)"

definition accelAngleY :: "device \<Rightarrow> flt" where
  "accelAngleY d =
     (let accX = accelG (AcX d); accY = accelG (AcY d); accZ = accelG (AcZ d);
          denomY = accelDenom accY accZ
      in if flt_less (Fin (1 / 100)) denomY
         then fsub (fdiv (fmul (fatan (fdiv (fmul (Fin (- 1)) accX) denomY)) (Fin 180)) PI)
                (AccErrorY d)
         else Fin 0)"

text \<open>A gyroscope register in degrees per second, less its calibrated bias.\<close>

definition gyroRate :: "16 word \<Rightarrow> flt \<Rightarrow> flt" where
  "gyroRate w err = fsub (fdiv (float_of_int16 w) (Fin 131)) err"

text \<open>
  \<^verbatim>\<open>alpha * (angle + gyro * elapsedTime) + (1 - alpha) * accAngle\<close>
\<close>

definition blend :: "flt \<Rightarrow> flt \<Rightarrow> flt \<Rightarrow> flt \<Rightarrow> flt" where
  "blend angle gyro elapsed accAngle =
     fadd (fmul alpha (fadd angle (fmul gyro elapsed)))
          (fmul (fsub (Fin 1) alpha) accAngle)"

definition calculateAngles :: "32 word \<Rightarrow> device \<Rightarrow> device" where
  "calculateAngles millis d =
     (let currentTime' = Fin (real (unat millis));
          elapsedTime' = guardElapsed (measuredElapsed millis d);
          accAngleX' = accelAngleX d;
          accAngleY' = accelAngleY d;
          gyroX = gyroRate (GyX d) (GyroErrorX d);
          gyroY = gyroRate (GyY d) (GyroErrorY d);
          gyroZ = gyroRate (GyZ d) (GyroErrorZ d);
          gyroAngleX' = fadd (gyroAngleX d) (fmul gyroX elapsedTime');
          gyroAngleY' = fadd (gyroAngleY d) (fmul gyroY elapsedTime');
          gyroAngleZ' = fadd (gyroAngleZ d) (fmul gyroZ elapsedTime');
          newRoll = blend (roll d) gyroX elapsedTime' accAngleX';
          newPitch = blend (pitch d) gyroY elapsedTime' accAngleY';
          roll1 = (if \<not> isnan newRoll then newRoll else roll d);
          pitch1 = (if \<not> isnan newPitch then newPitch else pitch d);
          yaw1 = gyroAngleZ';
          roll2 = (if isnan roll1 then Fin 0 else roll1);
          pitch2 = (if isnan pitch1 then Fin 0 else pitch1);
          yaw2 = (if isnan yaw1 then Fin 0 else yaw1)
      in d\<lparr>currentTime := currentTime',
           elapsedTime := elapsedTime',
           previousTime := currentTime',
           accAngleX := accAngleX',
           accAngleY := accAngleY',
           gyroAngleX := gyroAngleX',
           gyroAngleY := gyroAngleY',
           gyroAngleZ := gyroAngleZ',
           roll := constrain roll2 (Fin (- 180)) (Fin 180),
           pitch := constrain pitch2 (Fin (- 180)) (Fin 180),
           yaw := constrain yaw2 (Fin (- 180)) (Fin 180)\<rparr>)"

text \<open>
  One estimator tick of \<^verbatim>\<open>loop\<close>: the sensor read, then the fusion. A run is a list of
  ticks, each with its raw sample and its clock reading.
\<close>

definition tick :: "raw_sample \<times> 32 word \<Rightarrow> device \<Rightarrow> device" where
  "tick t d = calculateAngles (snd t) (readMPU6050 (fst t) d)"

definition run_ticks :: "(raw_sample \<times> 32 word) list \<Rightarrow> device \<Rightarrow> device" where
  "run_ticks ts d = fold tick ts d"

subsection \<open>Joint angle\<close>

text \<open>
  \<^verbatim>\<open>getKneeAngle\<close> reads the globals \<^verbatim>\<open>exerciseType\<close>, \<^verbatim>\<open>roll\<close> and \<^verbatim>\<open>pitch\<close>. The \<^verbatim>\<open>switch\<close>
  has the cases 0, 1, 2 and a default.
\<close>

definition getKneeAngle :: "device \<Rightarrow> flt" where
  "getKneeAngle d =
     (let safeRoll = (if isnan (roll d) then Fin 0 else roll d);
          safePitch = (if isnan (pitch d) then Fin 0 else pitch d);
          kneeAngle =
            (if exerciseType d = 0 then fsub (Fin 180) (abs_macro safePitch)
             else if exerciseType d = 1 then abs_macro safePitch
             else if exerciseType d = 2 then abs_macro safeRoll
             else abs_macro safePitch);
          kneeAngle' = constrain kneeAngle (Fin 0) (Fin 160)
      in if isnan kneeAngle' then Fin 0 else kneeAngle')"

subsection \<open>Calibration\<close>

text \<open>
  \<^verbatim>\<open>calibrateMPU6050\<close> reads the accelerometer 200 times, then the gyroscope 200 times.
  \<open>accReads c\<close> and \<open>gyroReads c\<close> are the three registers that read number \<open>c\<close> of each
  loop delivers. The lines are what the function prints on the Bluetooth link.
\<close>

type_synonym registers3 = "16 word \<times> 16 word \<times> 16 word"

definition accErrorStep :: "registers3 \<Rightarrow> flt \<times> flt \<Rightarrow> flt \<times> flt" where
  "accErrorStep rd err =
     (case rd of (tempAcX, tempAcY, tempAcZ) \<Rightarrow>
        (let acX = accelG tempAcX; acY = accelG tempAcY; acZ = accelG tempAcZ;
             denomX = accelDenom acX acZ;
             denomY = accelDenom acY acZ;
             errX = (if flt_less (Fin (1 / 100)) denomX
                     then fadd (fst err) (fdiv (fmul (fatan (fdiv acY denomX)) (Fin 180)) PI)
                     else fst err);
             errY = (if flt_less (Fin (1 / 100)) denomY
                     then fadd (snd err)
                            (fdiv (fmul (fatan (fdiv (fmul (Fin (- 1)) acX) denomY)) (Fin 180)) PI)
                     else snd err)
         in (errX, errY)))"

definition gyroErrorStep :: "registers3 \<Rightarrow> flt \<times> flt \<times> flt \<Rightarrow> flt \<times> flt \<times> flt" where
  "gyroErrorStep rd err =
     (case (rd, err) of ((tempGyX, tempGyY, tempGyZ), (ex, ey, ez)) \<Rightarrow>
        (fadd ex (fdiv (float_of_int16 tempGyX) (Fin 131)),
         fadd ey (fdiv (float_of_int16 tempGyY) (Fin 131)),
         fadd ez (fdiv (float_of_int16 tempGyZ) (Fin 131))))"

definition calibrateMPU6050 ::
  "(nat \<Rightarrow> registers3) \<Rightarrow> (nat \<Rightarrow> registers3) \<Rightarrow> device \<Rightarrow> device \<times> string list" where
  "calibrateMPU6050 accReads gyroReads d =
     (let acc = fold accErrorStep (map accReads [0..<200]) (Fin 0, Fin 0);
          gyr = fold gyroErrorStep (map gyroReads [0..<200]) (Fin 0, Fin 0, Fin 0)
      in (d\<lparr>AccErrorX := fdiv (fst acc) (Fin 200),
            AccErrorY := fdiv (snd acc) (Fin 200),
            GyroErrorX := fdiv (fst gyr) (Fin 200),
            GyroErrorY := fdiv (fst (snd gyr)) (Fin 200),
            GyroErrorZ := fdiv (snd (snd gyr)) (Fin 200)\<rparr>,
          [''CALIBRATING'', ''CALIBRATION_COMPLETE'']))"

subsection \<open>Protocol engine\<close>

text \<open>
  \<^verbatim>\<open>handleBluetoothCommand\<close> on a trimmed command: the new device state and the lines
  printed on the Bluetooth link (each goes out with \<^verbatim>\<open>println\<close>). A command that matches no
  branch changes nothing and prints nothing.
\<close>

definition handleBluetoothCommand ::
  "(nat \<Rightarrow> registers3) \<Rightarrow> (nat \<Rightarrow> registers3) \<Rightarrow> string \<Rightarrow> device
     \<Rightarrow> device \<times> string list" where
  "handleBluetoothCommand accReads gyroReads command d =
     (if starts_with ''START_SESSION:'' command then
        (let sessionId' = drop 14 command
         in (d\<lparr>sessionId := sessionId', isRecording := True\<rparr>,
             [''SESSION_STARTED:'' @ sessionId']))
      else if command = ''STOP_SESSION'' then
        (d\<lparr>isRecording := False, sessionId := []\<rparr>, [''SESSION_STOPPED''])
      else if starts_with ''SET_EXERCISE:'' command then
        (let exerciseType' = int_of_long (toInt (drop 13 command))
         in (d\<lparr>exerciseType := exerciseType'\<rparr>,
             [''EXERCISE_SET:'' @ String_of_int exerciseType']))
      else if command = ''CALIBRATE'' then calibrateMPU6050 accReads gyroReads d
      else if command = ''GET_STATUS'' then
        (d, [''STATUS:'' @ (if isRecording d then ''RECORDING'' else ''IDLE'')
               @ '':'' @ sessionId d @ '':'' @ String_of_int (exerciseType d)])
      else (d, []))"

section \<open>Vocabulary of the properties\<close>

subsection \<open>Estimator\<close>

text \<open>
  The values of the locals \<^verbatim>\<open>newRoll\<close> and \<^verbatim>\<open>newPitch\<close> of \<^verbatim>\<open>calculateAngles\<close> and of
  \<^verbatim>\<open>gyroAngleZ\<close> after its update, as functions of the clock reading and the state before
  the call; what it means for an angle to be finite and within [-180, 180]; and the floats
  that the filter reads being finite.
\<close>

definition newRoll :: "32 word \<Rightarrow> device \<Rightarrow> flt" where
  "newRoll millis d = blend (roll d) (gyroRate (GyX d) (GyroErrorX d))
      (guardElapsed (measuredElapsed millis d)) (accelAngleX d)"

definition newPitch :: "32 word \<Rightarrow> device \<Rightarrow> flt" where
  "newPitch millis d = blend (pitch d) (gyroRate (GyY d) (GyroErrorY d))
      (guardElapsed (measuredElapsed millis d)) (accelAngleY d)"

definition newGyroAngleZ :: "32 word \<Rightarrow> device \<Rightarrow> flt" where
  "newGyroAngleZ millis d = fadd (gyroAngleZ d)
      (fmul (gyroRate (GyZ d) (GyroErrorZ d)) (guardElapsed (measuredElapsed millis d)))"

definition angle_ok :: "flt \<Rightarrow> bool" where
  "angle_ok a = (case a of Fin v \<Rightarrow> - 180 \<le> v \<and> v \<le> 180 | _ \<Rightarrow> False)"

definition orientation_ok :: "device \<Rightarrow> bool" where
  "orientation_ok d = (angle_ok (roll d) \<and> angle_ok (pitch d) \<and> angle_ok (yaw d))"

definition estimator_finite :: "device \<Rightarrow> bool" where
  "estimator_finite d =
     (isfinite (roll d) \<and> isfinite (pitch d) \<and> isfinite (yaw d)
      \<and> isfinite (gyroAngleX d) \<and> isfinite (gyroAngleY d) \<and> isfinite (gyroAngleZ d)
      \<and> isfinite (AccErrorX d) \<and> isfinite (AccErrorY d)
      \<and> isfinite (GyroErrorX d) \<and> isfinite (GyroErrorY d) \<and> isfinite (GyroErrorZ d))"

definition zero_sample :: raw_sample where
  "zero_sample = \<lparr>sAcX = 0, sAcY = 0, sAcZ = 0, sTmp = 0, sGyX = 0, sGyY = 0, sGyZ = 0\<rparr>"

text \<open>
  A state whose gyroscope biases are NaN and whose integrated yaw is NaN, with valid roll
  and pitch; and a state whose clock has not advanced since the previous tick.
\<close>

definition nan_bias_device :: device where
  "nan_bias_device =
     initial_device\<lparr>roll := Fin 10, pitch := Fin (- 20), gyroAngleZ := NaN,
                    GyroErrorX := NaN, GyroErrorY := NaN\<rparr>"

definition stalled_clock_device :: device where
  "stalled_clock_device = initial_device\<lparr>previousTime := Fin 100, gyroAngleX := Fin 5\<rparr>"

subsection \<open>Protocol\<close>

text \<open>The values of a 16-bit \<^verbatim>\<open>int\<close>.\<close>

definition in_int_range :: "int \<Rightarrow> bool" where
  "in_int_range m = (- 32768 \<le> m \<and> m \<le> 32767)"

text \<open>A sensor that reads zero in every register, for the calibration loops.\<close>

definition no_reads :: "nat \<Rightarrow> registers3" where
  "no_reads c = (0, 0, 0)"

subsection \<open>Sessions\<close>

text \<open>
  A service with one open link, a device that is recording session \<^verbatim>\<open>s1\<close>, and a dashboard
  that has seen \<^verbatim>\<open>session_started\<close> for \<^verbatim>\<open>s1\<close> at time 1000.
\<close>

definition connected_service :: SerialService where
  "connected_service = fst (connect FiresOpen ''COM3'' initial_service)"


definition active_dashboard :: Dashboard where
  "active_dashboard = onMessage 1000 (SessionStartedMsg ''s1'') initial_dashboard"

subsection \<open>Session statistics\<close>

text \<open>The joint angles of a run of frames, as real numbers (0 for a non-finite one).\<close>

fun fin_val :: "flt \<Rightarrow> real" where
  "fin_val (Fin x) = x"
| "fin_val _ = 0"

definition readings :: "(nat \<times> ArduinoData) list \<Rightarrow> real list" where
  "readings fs = map (\<lambda>f. fin_val (kneeAngle (snd f))) fs"

subsection \<open>Frame parser\<close>





definition sample_frame :: ArduinoData where
  "sample_frame =
     \<lparr>ArduinoData.sessionId = ''s1'', timestamp = Fin 1200, ArduinoData.exerciseType = Fin 1,
      rawSensorData = \<lparr>accelX = Fin 0, accelY = Fin 0, accelZ = Fin 1,
                       gyroX = Fin 0, gyroY = Fin 0, gyroZ = Fin 0\<rparr>,
      angles = \<lparr>Angles.roll = Fin 2, Angles.pitch = Fin 40, Angles.yaw = Fin 0\<rparr>,
      kneeAngle = Fin 40, temperature = Fin 36\<rparr>"



subsection \<open>Link transport\<close>

text \<open>
  The invariant of the transport: a port that is open is the one the service holds, and
  the service is then marked connected; a service marked connected holds an open port.
\<close>

definition transport_inv :: "SerialService \<Rightarrow> bool" where
  "transport_inv s =
     ((\<forall>h. isOpen s h \<longrightarrow> port s = Some h \<and> isConnected s)
      \<and> (isConnected s \<longrightarrow> (\<exists>h. port s = Some h \<and> isOpen s h)))"

text \<open>The state in which \<open>connect\<close> creates the new port.\<close>

definition before_open :: "SerialService \<Rightarrow> SerialService" where
  "before_open s = (if isConnected s then disconnect s else s)"

text \<open>
  Two calls of \<^verbatim>\<open>connect\<close> for different paths, the second made before the port of the
  first has opened; then both ports open.
\<close>

definition overlapping_connects :: "transport_event list" where
  "overlapping_connects =
     [ConnectCalled ''COM3'', ConnectCalled ''COM4'', PortOpens 0, PortOpens 1]"

text \<open>Connecting, disconnecting and reconnecting to the same path twice.\<close>

definition reconnect_calls :: "transport_call list" where
  "reconnect_calls =
     [Connect FiresOpen ''COM3'', Disconnect, Connect FiresOpen ''COM3'',
      Disconnect, Connect FiresOpen ''COM3'']"

subsection \<open>Waiting\<close>

text \<open>The analytics forwarder before any request.\<close>

definition initial_n8n :: N8nService where
  "initial_n8n = \<lparr>N8nService.isConnected = False, n8nEmitted = []\<rparr>"

section \<open>Properties\<close>

subsection \<open>Floating-point helpers\<close>

lemma abs_macro_Fin: "abs_macro (Fin x) = Fin \<bar>x\<bar>"
  by (simp add: abs_macro_def)

lemma constrain_Fin:
  "lo \<le> hi \<Longrightarrow> constrain (Fin x) (Fin lo) (Fin hi) = Fin (max lo (min hi x))"
  by (simp add: constrain_def max_def min_def)

lemma constrain_range:
  assumes "lo \<le> hi" and "\<not> isnan a"
  shows "\<exists>v. constrain a (Fin lo) (Fin hi) = Fin v \<and> lo \<le> v \<and> v \<le> hi"
  using assms by (cases a) (auto simp: constrain_def)

lemma abs_macro_not_nan: "\<not> isnan a \<Longrightarrow> \<not> isnan (abs_macro a)"
  by (cases a) (auto simp: abs_macro_def)

lemma fsub_Fin_not_nan: "\<not> isnan a \<Longrightarrow> \<not> isnan (fsub (Fin c) a)"
  by (cases a) (auto simp: fsub_def)

subsection \<open>Joint angle\<close>

text \<open>
  C1. The joint angle depends on the exercise mode and the two tiltable angles only: whatever
  the rest of the device state is, for finite roll and pitch, mode 0 gives 180 minus the
  absolute pitch, mode 1 the absolute pitch, mode 2 the absolute roll and every other mode
  the absolute pitch, clamped to [0, 160]. For every state, also with non-finite angles, the
  result is a finite number in [0, 160]: after the clamp the only non-finite value left is
  NaN, which is replaced with 0.
\<close>

theorem getKneeAngle_spec:
  "getKneeAngle (d\<lparr>roll := Fin r, pitch := Fin p, exerciseType := m\<rparr>) =
     Fin (max 0 (min 160 (if m = 0 then 180 - \<bar>p\<bar> else if m = 1 then \<bar>p\<bar>
                          else if m = 2 then \<bar>r\<bar> else \<bar>p\<bar>)))
   \<and> (\<exists>v. getKneeAngle d = Fin v \<and> 0 \<le> v \<and> v \<le> 160)"
proof
  show "getKneeAngle (d\<lparr>roll := Fin r, pitch := Fin p, exerciseType := m\<rparr>) =
     Fin (max 0 (min 160 (if m = 0 then 180 - \<bar>p\<bar> else if m = 1 then \<bar>p\<bar>
                          else if m = 2 then \<bar>r\<bar> else \<bar>p\<bar>)))"
    by (simp add: getKneeAngle_def abs_macro_Fin fsub_def constrain_Fin Let_def)
next
  define sr where "sr = (if isnan (roll d) then Fin 0 else roll d)"
  define sp where "sp = (if isnan (pitch d) then Fin 0 else pitch d)"
  define k where "k = (if exerciseType d = 0 then fsub (Fin 180) (abs_macro sp)
             else if exerciseType d = 1 then abs_macro sp
             else if exerciseType d = 2 then abs_macro sr
             else abs_macro sp)"
  have nn: "\<not> isnan sr" "\<not> isnan sp"
    by (simp_all add: sr_def sp_def)
  then have "\<not> isnan k"
    by (simp add: k_def abs_macro_not_nan fsub_Fin_not_nan)
  then obtain v where v: "constrain k (Fin 0) (Fin 160) = Fin v" "0 \<le> v" "v \<le> 160"
    using constrain_range [of 0 160 k] by auto
  have "getKneeAngle d =
      (if isnan (constrain k (Fin 0) (Fin 160)) then Fin 0 else constrain k (Fin 0) (Fin 160))"
    by (simp add: getKneeAngle_def Let_def k_def sr_def sp_def)
  with v show "\<exists>v. getKneeAngle d = Fin v \<and> 0 \<le> v \<and> v \<le> 160"
    by simp
qed

theorem getKneeAngle_spec_witness:
  "getKneeAngle (initial_device\<lparr>roll := Fin 30, pitch := Fin 0, exerciseType := 2\<rparr>) = Fin 30
   \<and> getKneeAngle (initial_device\<lparr>roll := Fin 0, pitch := Fin 170, exerciseType := 0\<rparr>) = Fin 10
   \<and> getKneeAngle (initial_device\<lparr>roll := Fin 0, pitch := Fin (- 45), exerciseType := 1\<rparr>) = Fin 45
   \<and> getKneeAngle (initial_device\<lparr>roll := Fin 0, pitch := Fin (- 45), exerciseType := 7\<rparr>) = Fin 45"
  using getKneeAngle_spec [where d = initial_device and r = 30 and p = 0 and m = 2]
    getKneeAngle_spec [where d = initial_device and r = 0 and p = 170 and m = 0]
    getKneeAngle_spec [where d = initial_device and r = 0 and p = "- 45" and m = 1]
    getKneeAngle_spec [where d = initial_device and r = 0 and p = "- 45" and m = 7]
  by simp

subsection \<open>Estimator tick\<close>

lemma accelG_Fin: "accelG w = Fin (real_of_int (sint w) / 16384)"
  by (simp add: accelG_def float_of_int16_def)

lemma accelDenom_Fin: "accelDenom (Fin a) (Fin b) = Fin (sqrt (a * a + b * b))"
  by (simp add: accelDenom_def not_less)

lemma isfinite_fsub: "isfinite a \<Longrightarrow> isfinite b \<Longrightarrow> isfinite (fsub a b)"
  by (cases a; cases b) (simp_all add: fsub_def)

lemma isfinite_fadd: "isfinite a \<Longrightarrow> isfinite b \<Longrightarrow> isfinite (fadd a b)"
  by (cases a; cases b) simp_all

lemma isfinite_fmul: "isfinite a \<Longrightarrow> isfinite b \<Longrightarrow> isfinite (fmul a b)"
  by (cases a; cases b) simp_all

lemma isfinite_not_nan: "isfinite a \<Longrightarrow> \<not> isnan a"
  by (cases a) simp_all

lemma isfinite_accelAngleX: "isfinite (AccErrorX d) \<Longrightarrow> isfinite (accelAngleX d)"
  by (cases "AccErrorX d") (auto simp: accelAngleX_def accelG_Fin accelDenom_Fin Let_def PI_def fsub_def)

lemma isfinite_accelAngleY: "isfinite (AccErrorY d) \<Longrightarrow> isfinite (accelAngleY d)"
  by (cases "AccErrorY d") (auto simp: accelAngleY_def accelG_Fin accelDenom_Fin Let_def PI_def fsub_def)

lemma isfinite_gyroRate: "isfinite e \<Longrightarrow> isfinite (gyroRate w e)"
  by (cases e) (simp_all add: gyroRate_def float_of_int16_def fsub_def)

lemma isfinite_blend:
  "isfinite a \<Longrightarrow> isfinite g \<Longrightarrow> isfinite e \<Longrightarrow> isfinite acc \<Longrightarrow> isfinite (blend a g e acc)"
  by (simp add: blend_def alpha_def isfinite_fadd isfinite_fmul isfinite_fsub)

lemma constrain_angle_ok: "\<not> isnan a \<Longrightarrow> angle_ok (constrain a (Fin (- 180)) (Fin 180))"
  by (cases a) (auto simp: constrain_def angle_ok_def)

lemma constrain_id: "angle_ok a \<Longrightarrow> constrain a (Fin (- 180)) (Fin 180) = a"
  by (cases a) (auto simp: constrain_def angle_ok_def)

lemma angle_ok_isfinite: "angle_ok a \<Longrightarrow> isfinite a"
  by (cases a) (simp_all add: angle_ok_def)

lemma roll_calculateAngles:
  "roll (calculateAngles ms d) =
     constrain (if isnan (if \<not> isnan (newRoll ms d) then newRoll ms d else roll d) then Fin 0
                else if \<not> isnan (newRoll ms d) then newRoll ms d else roll d)
       (Fin (- 180)) (Fin 180)"
  by (simp add: calculateAngles_def newRoll_def Let_def)

lemma pitch_calculateAngles:
  "pitch (calculateAngles ms d) =
     constrain (if isnan (if \<not> isnan (newPitch ms d) then newPitch ms d else pitch d) then Fin 0
                else if \<not> isnan (newPitch ms d) then newPitch ms d else pitch d)
       (Fin (- 180)) (Fin 180)"
  by (simp add: calculateAngles_def newPitch_def Let_def)

lemma yaw_calculateAngles:
  "yaw (calculateAngles ms d) =
     constrain (if isnan (newGyroAngleZ ms d) then Fin 0 else newGyroAngleZ ms d)
       (Fin (- 180)) (Fin 180)"
  by (simp add: calculateAngles_def newGyroAngleZ_def Let_def)

lemma elapsed_calculateAngles:
  "elapsedTime (calculateAngles ms d) = guardElapsed (measuredElapsed ms d)"
  by (simp add: calculateAngles_def Let_def)

lemma gyroAngles_calculateAngles:
  "gyroAngleX (calculateAngles ms d) =
     fadd (gyroAngleX d) (fmul (gyroRate (GyX d) (GyroErrorX d)) (guardElapsed (measuredElapsed ms d)))"
  "gyroAngleY (calculateAngles ms d) =
     fadd (gyroAngleY d) (fmul (gyroRate (GyY d) (GyroErrorY d)) (guardElapsed (measuredElapsed ms d)))"
  "gyroAngleZ (calculateAngles ms d) = newGyroAngleZ ms d"
  by (simp_all add: calculateAngles_def newGyroAngleZ_def Let_def)

lemma offsets_calculateAngles:
  "AccErrorX (calculateAngles ms d) = AccErrorX d"
  "AccErrorY (calculateAngles ms d) = AccErrorY d"
  "GyroErrorX (calculateAngles ms d) = GyroErrorX d"
  "GyroErrorY (calculateAngles ms d) = GyroErrorY d"
  "GyroErrorZ (calculateAngles ms d) = GyroErrorZ d"
  by (simp_all add: calculateAngles_def Let_def)

lemma orientation_ok_calculateAngles: "orientation_ok (calculateAngles ms d)"
  unfolding orientation_ok_def roll_calculateAngles pitch_calculateAngles yaw_calculateAngles
  by (intro conjI constrain_angle_ok) simp_all

lemma orientation_ok_tick: "orientation_ok (tick t d)"
  by (simp add: tick_def orientation_ok_calculateAngles)

lemma orientation_ok_run: "ts \<noteq> [] \<Longrightarrow> orientation_ok (run_ticks ts d)"
proof (induction ts arbitrary: d rule: rev_induct)
  case Nil
  then show ?case by simp
next
  case (snoc t ts)
  show ?case by (simp add: run_ticks_def orientation_ok_tick)
qed

lemma roll_retained:
  assumes "isnan (newRoll ms d)" and "angle_ok (roll d)"
  shows "roll (calculateAngles ms d) = roll d"
proof -
  have "\<not> isnan (roll d)" using assms(2) by (simp add: angle_ok_isfinite isfinite_not_nan)
  then show ?thesis
    using assms by (simp add: roll_calculateAngles constrain_id)
qed

lemma pitch_retained:
  assumes "isnan (newPitch ms d)" and "angle_ok (pitch d)"
  shows "pitch (calculateAngles ms d) = pitch d"
proof -
  have "\<not> isnan (pitch d)" using assms(2) by (simp add: angle_ok_isfinite isfinite_not_nan)
  then show ?thesis
    using assms by (simp add: pitch_calculateAngles constrain_id)
qed

lemma yaw_zeroed: "isnan (newGyroAngleZ ms d) \<Longrightarrow> yaw (calculateAngles ms d) = Fin 0"
  by (simp add: yaw_calculateAngles constrain_def)

lemma estimator_finite_step:
  assumes "estimator_finite d" and "isfinite (guardElapsed (measuredElapsed ms d))"
  shows "estimator_finite (calculateAngles ms d)"
proof -
  have ok: "orientation_ok (calculateAngles ms d)"
    by (rule orientation_ok_calculateAngles)
  have "isfinite (gyroAngleX (calculateAngles ms d))"
       "isfinite (gyroAngleY (calculateAngles ms d))"
       "isfinite (gyroAngleZ (calculateAngles ms d))"
    using assms
    by (simp_all add: gyroAngles_calculateAngles newGyroAngleZ_def estimator_finite_def
        isfinite_fadd isfinite_fmul isfinite_gyroRate)
  with ok assms(1) show ?thesis
    by (simp add: estimator_finite_def orientation_ok_def angle_ok_isfinite offsets_calculateAngles)
qed

text \<open>
  C5. After every tick, whatever the raw samples and clock readings were and whatever state
  the run started from, roll, pitch and yaw are finite and within [-180, 180]. When the
  blend for roll (or pitch) is NaN and the previous roll (or pitch) is a valid angle, the
  previous value is kept; when the integrated yaw is NaN, yaw is set to zero.
\<close>

theorem orientation_invariant:
  "(ts \<noteq> [] \<longrightarrow> orientation_ok (run_ticks ts d))
   \<and> (isnan (newRoll ms d) \<and> angle_ok (roll d) \<longrightarrow> roll (calculateAngles ms d) = roll d)
   \<and> (isnan (newPitch ms d) \<and> angle_ok (pitch d) \<longrightarrow> pitch (calculateAngles ms d) = pitch d)
   \<and> (isnan (newGyroAngleZ ms d) \<longrightarrow> yaw (calculateAngles ms d) = Fin 0)"
  using orientation_ok_run roll_retained pitch_retained yaw_zeroed by blast

theorem orientation_invariant_witness:
  "orientation_ok (run_ticks [(zero_sample, 100), (zero_sample, 200)] initial_device)
   \<and> isnan (newRoll 100 nan_bias_device)
   \<and> roll (calculateAngles 100 nan_bias_device) = Fin 10
   \<and> isnan (newPitch 100 nan_bias_device)
   \<and> pitch (calculateAngles 100 nan_bias_device) = Fin (- 20)
   \<and> isnan (newGyroAngleZ 100 nan_bias_device)
   \<and> yaw (calculateAngles 100 nan_bias_device) = Fin 0"
proof -
  have r: "isnan (newRoll 100 nan_bias_device)"
    by (simp add: newRoll_def blend_def gyroRate_def fsub_def nan_bias_device_def
        initial_device_def float_of_int16_def alpha_def)
  have p: "isnan (newPitch 100 nan_bias_device)"
    by (simp add: newPitch_def blend_def gyroRate_def fsub_def nan_bias_device_def
        initial_device_def float_of_int16_def alpha_def)
  have y: "isnan (newGyroAngleZ 100 nan_bias_device)"
    by (simp add: newGyroAngleZ_def nan_bias_device_def)
  have a: "angle_ok (roll nan_bias_device)" "angle_ok (pitch nan_bias_device)"
    by (simp_all add: nan_bias_device_def angle_ok_def)
  show ?thesis
    using orientation_invariant [where ts = "[(zero_sample, 100), (zero_sample, 200)]"
        and d = initial_device and ms = 100]
      orientation_invariant [where ts = "[]" and d = nan_bias_device and ms = 100]
      r p y a
    by (simp add: nan_bias_device_def)
qed

text \<open>
  C7. When the measured elapsed time of a tick is zero or negative, the tick uses the fixed
  positive value 0.001 s instead: it is what the tick stores as elapsed time and what the
  gyroscope integration and the filter blend multiply with. From a state whose floats are
  finite, the two blends are then finite and the state after the tick is finite again: no
  division by zero and no infinity enters the integration or the blend.
\<close>

theorem elapsed_guard:
  assumes "flt_le (measuredElapsed ms d) (Fin 0)"
  shows "elapsedTime (calculateAngles ms d) = Fin (1 / 1000)
     \<and> gyroAngleX (calculateAngles ms d) =
         fadd (gyroAngleX d) (fmul (gyroRate (GyX d) (GyroErrorX d)) (Fin (1 / 1000)))
     \<and> gyroAngleY (calculateAngles ms d) =
         fadd (gyroAngleY d) (fmul (gyroRate (GyY d) (GyroErrorY d)) (Fin (1 / 1000)))
     \<and> gyroAngleZ (calculateAngles ms d) =
         fadd (gyroAngleZ d) (fmul (gyroRate (GyZ d) (GyroErrorZ d)) (Fin (1 / 1000)))
     \<and> newRoll ms d = blend (roll d) (gyroRate (GyX d) (GyroErrorX d)) (Fin (1 / 1000)) (accelAngleX d)
     \<and> newPitch ms d = blend (pitch d) (gyroRate (GyY d) (GyroErrorY d)) (Fin (1 / 1000)) (accelAngleY d)
     \<and> (estimator_finite d \<longrightarrow>
          isfinite (newRoll ms d) \<and> isfinite (newPitch ms d)
          \<and> estimator_finite (calculateAngles ms d))"
proof -
  have g: "guardElapsed (measuredElapsed ms d) = Fin (1 / 1000)"
    using assms by (simp add: guardElapsed_def)
  have fin: "estimator_finite (calculateAngles ms d)" if "estimator_finite d"
    using that estimator_finite_step [of d ms] by (simp add: g)
  have nr: "isfinite (newRoll ms d)" "isfinite (newPitch ms d)" if "estimator_finite d"
    using that
    by (simp_all add: newRoll_def newPitch_def g estimator_finite_def isfinite_blend
        isfinite_gyroRate isfinite_accelAngleX isfinite_accelAngleY)
  show ?thesis
    using fin nr
    by (simp add: elapsed_calculateAngles gyroAngles_calculateAngles newGyroAngleZ_def
        newRoll_def newPitch_def g)
qed

theorem elapsed_guard_witness:
  "flt_le (measuredElapsed 100 stalled_clock_device) (Fin 0)
   \<and> elapsedTime (calculateAngles 100 stalled_clock_device) = Fin (1 / 1000)
   \<and> gyroAngleX (calculateAngles 100 stalled_clock_device) = Fin 5
   \<and> estimator_finite (calculateAngles 100 stalled_clock_device)"
proof -
  have m: "flt_le (measuredElapsed 100 stalled_clock_device) (Fin 0)"
    by (simp add: measuredElapsed_def stalled_clock_device_def fsub_def)
  have f: "estimator_finite stalled_clock_device"
    by (simp add: estimator_finite_def stalled_clock_device_def initial_device_def)
  have g: "gyroRate (GyX stalled_clock_device) (GyroErrorX stalled_clock_device) = Fin 0"
    by (simp add: gyroRate_def stalled_clock_device_def initial_device_def float_of_int16_def
        fsub_def)
  show ?thesis
    using elapsed_guard [OF m] m f g
    by (simp add: stalled_clock_device_def initial_device_def)
qed

subsection \<open>Strings and the protocol engine\<close>



lemma digit_val_digit_char: "digit_val (digit_char n) = Some (n mod 10)"
proof -
  have "n mod 10 = 0 \<or> n mod 10 = 1 \<or> n mod 10 = 2 \<or> n mod 10 = 3 \<or> n mod 10 = 4
      \<or> n mod 10 = 5 \<or> n mod 10 = 6 \<or> n mod 10 = 7 \<or> n mod 10 = 8 \<or> n mod 10 = 9"
    by presburger
  then show ?thesis
    by (elim disjE) (simp_all add: digit_val_def digit_char_def)
qed

lemma digits_value_append:
  "\<forall>c \<in> set xs. dv c \<noteq> None \<Longrightarrow>
     digits_value dv r acc (xs @ ys) = digits_value dv r (digits_value dv r acc xs) ys"
  by (induction xs arbitrary: acc) auto

lemma nat_digits_all_digits: "\<forall>c \<in> set (nat_digits n). digit_val c \<noteq> None"
  by (induction n rule: nat_digits.induct) (subst nat_digits.simps, auto simp: digit_val_digit_char)

lemma digits_value_nat_digits:
  "digits_value digit_val 10 acc (nat_digits n) = acc * 10 ^ length (nat_digits n) + n"
proof (induction n arbitrary: acc rule: nat_digits.induct)
  case (1 n)
  show ?case
  proof (cases "n < 10")
    case True
    then show ?thesis
      by (subst (1 2) nat_digits.simps) (simp add: digit_val_digit_char)
  next
    case False
    have "digits_value digit_val 10 acc (nat_digits n)
        = digits_value digit_val 10 acc (nat_digits (n div 10) @ [digit_char n])"
      using False by (subst nat_digits.simps) simp
    also have "\<dots> = digits_value digit_val 10 (digits_value digit_val 10 acc (nat_digits (n div 10))) [digit_char n]"
      by (rule digits_value_append) (rule nat_digits_all_digits)
    also have "\<dots> = (acc * 10 ^ length (nat_digits (n div 10)) + n div 10) * 10 + n mod 10"
      using False by (simp add: "1.IH" digit_val_digit_char)
    also have "\<dots> = acc * 10 ^ length (nat_digits n) + n"
      using False by (subst (2) nat_digits.simps) (simp add: algebra_simps)
    finally show ?thesis .
  qed
qed

lemma nat_digits_nonempty: "nat_digits n \<noteq> []"
  by (subst nat_digits.simps) simp

lemma hd_nat_digits_digit: "\<exists>c cs. nat_digits n = c # cs \<and> digit_val c \<noteq> None"
  using nat_digits_nonempty [of n] nat_digits_all_digits [of n]
  by (cases "nat_digits n") auto

lemma digit_not_sign_space:
  "digit_val c \<noteq> None \<Longrightarrow> c \<noteq> CHR ''-'' \<and> c \<noteq> CHR ''+'' \<and> \<not> is_space c"
  by (auto simp: digit_val_def is_space_def split: if_splits)

lemma toInt_String_of_int: "toInt (String_of_int m) = word_of_int m"
proof -
  obtain c cs where c: "nat_digits (nat \<bar>m\<bar>) = c # cs" "digit_val c \<noteq> None"
    using hd_nat_digits_digit by blast
  have v: "digits_value digit_val 10 0 (nat_digits (nat \<bar>m\<bar>)) = nat \<bar>m\<bar>"
    by (simp add: digits_value_nat_digits)
  show ?thesis
  proof (cases "m < 0")
    case True
    then have "String_of_int m = CHR ''-'' # nat_digits (nat \<bar>m\<bar>)"
      by (simp add: String_of_int_def abs_if)
    then have "toInt (String_of_int m) = - of_nat (nat \<bar>m\<bar>)"
      using v by (simp add: toInt_def strip_sign_def is_space_def)
    also have "\<dots> = word_of_int m"
      using True by simp
    finally show ?thesis .
  next
    case False
    then have s: "String_of_int m = c # cs"
      using c by (simp add: String_of_int_def abs_if)
    have "strip_sign (dropWhile is_space (c # cs)) = (False, c # cs)"
      using digit_not_sign_space [OF c(2)] by (simp add: strip_sign_def)
    then have "toInt (String_of_int m) = of_nat (nat \<bar>m\<bar>)"
      using v c by (simp add: toInt_def s)
    also have "\<dots> = word_of_int m"
      using False by simp
    finally show ?thesis .
  qed
qed

lemma int_of_long_word_of_int:
  assumes "in_int_range m"
  shows "int_of_long (word_of_int m) = m"
proof -
  have "int_of_long (word_of_int m) = signed_take_bit 15 m"
    by (simp add: int_of_long_def sint_uint unsigned_ucast_eq uint_word_of_int_eq
        signed_take_bit_take_bit)
  also have "\<dots> = m"
    using assms by (intro signed_take_bit_int_eq_self) (simp_all add: in_int_range_def)
  finally show ?thesis .
qed

lemma echo_in_int_range:
  "in_int_range m \<Longrightarrow> int_of_long (toInt (String_of_int m)) = m"
  by (simp add: toInt_String_of_int int_of_long_word_of_int)

lemma handle_exercise_set:
  "handleArduinoData jp (''EXERCISE_SET:'' @ rest) = [Emit (Message (''EXERCISE_SET:'' @ rest))]"
  by (simp add: handleArduinoData_def starts_with_def)

lemma handle_set_exercise:
  "handleBluetoothCommand ar gr (''SET_EXERCISE:'' @ arg) d =
     (d\<lparr>exerciseType := int_of_long (toInt arg)\<rparr>,
      [''EXERCISE_SET:'' @ String_of_int (int_of_long (toInt arg))])"
  by (simp add: handleBluetoothCommand_def starts_with_def Let_def)

lemma toInt_65536: "int_of_long (toInt ''65536'') = 0"
  by (simp add: toInt_def strip_sign_def is_space_def digit_val_def int_of_long_def)

lemma String_of_int_0: "String_of_int 0 = ''0''"
  by (simp add: String_of_int_def nat_digits.simps [of 0] digit_char_def)

text \<open>
  C10, as stated, fails: the host forwards the mode 65536 as \<^verbatim>\<open>SET_EXERCISE:65536\<close>, and the
  device, whose \<^verbatim>\<open>int\<close> has 16 bits, stores mode 0 and replies \<^verbatim>\<open>EXERCISE_SET:0\<close>, not
  \<^verbatim>\<open>EXERCISE_SET:65536\<close>.
\<close>

theorem exercise_ack_echo_counterexample:
  "written (fst (setExerciseType WriteOk 65536 connected_service))
     = [''SET_EXERCISE:65536'' @ [CHR 0x0A]]
   \<and> handleBluetoothCommand no_reads no_reads ''SET_EXERCISE:65536'' initial_device
     = (initial_device\<lparr>exerciseType := 0\<rparr>, [''EXERCISE_SET:0''])
   \<and> ''EXERCISE_SET:0'' \<noteq> ''EXERCISE_SET:65536''"
proof -
  have n: "nat_digits 65536 = ''65536''"
    by (simp add: nat_digits.simps [of 65536] nat_digits.simps [of 6553]
        nat_digits.simps [of 655] nat_digits.simps [of 65] nat_digits.simps [of 6]
        digit_char_def)
  have w: "written (fst (setExerciseType WriteOk 65536 connected_service))
     = [''SET_EXERCISE:65536'' @ [CHR 0x0A]]"
    by (simp add: setExerciseType_def sendCommand_def connected_service_def connect_def
        connect_start_def on_open_def initial_service_def set_port_state_def Let_def
        String_of_int_def n)
  have h: "handleBluetoothCommand no_reads no_reads ''SET_EXERCISE:65536'' initial_device
     = (initial_device\<lparr>exerciseType := 0\<rparr>, [''EXERCISE_SET:0''])"
    using handle_set_exercise [of no_reads no_reads "''65536''" initial_device]
    by (simp add: toInt_65536 String_of_int_0)
  show ?thesis
    using w h by simp
qed

text \<open>
  C10, amended. For every command \<^verbatim>\<open>SET_EXERCISE:<arg>\<close> the device sets its mode to the
  integer that \<^verbatim>\<open>toInt\<close> reads from the argument, narrowed to its 16-bit \<^verbatim>\<open>int\<close>, and replies
  with the one line \<^verbatim>\<open>EXERCISE_SET:<mode>\<close> for the mode it has set. When the argument is the
  decimal text of an integer that an \<^verbatim>\<open>int\<close> can hold, that mode is the argument, so the reply
  repeats it. The host classifies every line that starts with \<^verbatim>\<open>EXERCISE_SET:\<close> as an
  unrecognised tag: it emits one generic message event with the line, no typed
  acknowledgment and no parse error.
\<close>

theorem exercise_ack_is_message:
  "handleBluetoothCommand ar gr (''SET_EXERCISE:'' @ arg) d =
     (d\<lparr>exerciseType := int_of_long (toInt arg)\<rparr>,
      [''EXERCISE_SET:'' @ String_of_int (int_of_long (toInt arg))])
   \<and> in_int_range (int_of_long (toInt arg))
   \<and> (in_int_range m \<longrightarrow>
        handleBluetoothCommand ar gr (''SET_EXERCISE:'' @ String_of_int m) d =
          (d\<lparr>exerciseType := m\<rparr>, [''EXERCISE_SET:'' @ String_of_int m]))
   \<and> handleArduinoData jp (''EXERCISE_SET:'' @ rest) = [Emit (Message (''EXERCISE_SET:'' @ rest))]"
proof -
  have r: "in_int_range (int_of_long (toInt arg))"
    using sint_range_size [of "ucast (toInt arg) :: 16 word"]
    by (simp add: in_int_range_def int_of_long_def word_size)
  have e: "handleBluetoothCommand ar gr (''SET_EXERCISE:'' @ String_of_int m) d =
          (d\<lparr>exerciseType := m\<rparr>, [''EXERCISE_SET:'' @ String_of_int m])"
    if "in_int_range m"
    using handle_set_exercise [of ar gr "String_of_int m" d] echo_in_int_range [OF that]
    by simp
  show ?thesis
    using handle_set_exercise [of ar gr arg d] r e handle_exercise_set [of jp rest] by blast
qed

theorem exercise_ack_is_message_witness:
  "in_int_range 2
   \<and> handleBluetoothCommand no_reads no_reads ''SET_EXERCISE:2'' initial_device =
     (initial_device\<lparr>exerciseType := 2\<rparr>, [''EXERCISE_SET:2''])
   \<and> handleArduinoData Map.empty ''EXERCISE_SET:2'' = [Emit (Message ''EXERCISE_SET:2'')]"
proof -
  have s: "String_of_int 2 = ''2''"
    by (simp add: String_of_int_def nat_digits.simps [of 2] digit_char_def)
  have i: "in_int_range 2"
    by (simp add: in_int_range_def)
  from exercise_ack_is_message [where ar = no_reads and gr = no_reads and arg = "''2''"
      and d = initial_device and m = 2 and jp = Map.empty and rest = "''2''"] i
  have "handleBluetoothCommand no_reads no_reads (''SET_EXERCISE:'' @ String_of_int 2)
          initial_device
        = (initial_device\<lparr>exerciseType := 2\<rparr>, [''EXERCISE_SET:'' @ String_of_int 2])"
    and "handleArduinoData Map.empty (''EXERCISE_SET:'' @ ''2'')
        = [Emit (Message (''EXERCISE_SET:'' @ ''2''))]"
    by blast+
  then show ?thesis
    using i by (simp add: s)
qed

subsection \<open>Starting a session\<close>

lemma connected_service_eval:
  "connected_service =
     \<lparr>ports = [(''COM3'', Open)], port = Some 0, parser = Some 0, isConnected = True,
      currentPortPath = Some ''COM3'', emitted = [Connected ''COM3''], written = []\<rparr>"
  by (simp add: connected_service_def connect_def connect_start_def on_open_def
      initial_service_def set_port_state_def Let_def)










subsection \<open>Session statistics\<close>

lemma active_dashboard_eval:
  "active_dashboard =
     initial_dashboard\<lparr>currentSessionId := Some ''s1'', sessionStartTime := Some 1000,
                       sessionStats := Some zero_stats\<rparr>"
  by (simp add: active_dashboard_def onMessage_def)

lemma updateSessionStats_inactive:
  "sessionStartTime dash = None \<or> sessionStartTime dash = Some 0 \<or> sessionStats dash = None
     \<Longrightarrow> sessionStats (updateSessionStats now data dash) = sessionStats dash"
  by (auto simp: updateSessionStats_def split: option.splits)

lemma updateSessionStats_active:
  assumes "sessionStartTime dash = Some start" and "start \<noteq> 0"
    and "sessionStats dash = Some prev"
  shows "sessionStats (updateSessionStats now data dash) =
     Some \<lparr>duration = int now - int start,
           readingCount = readingCount prev + 1,
           maxAngle = js_max (maxAngle prev) (kneeAngle data),
           avgAngle = fdiv (fadd (fmul (avgAngle prev) (Fin (real (readingCount prev))))
                              (kneeAngle data))
                        (Fin (real (readingCount prev + 1))),
           qualityScore = Some (js_min (Fin 10)
             (fdiv (fadd (js_max (Fin 0)
                      (fsub (Fin 10) (fdiv (js_abs (fsub (kneeAngle data) (Fin 90))) (Fin 10))))
                    (or_zero (qualityScore prev))) (Fin 2)))\<rparr>"
  using assms by (simp add: updateSessionStats_def Let_def)

lemma updateSessionStats_start:
  "sessionStartTime (updateSessionStats now data dash) = sessionStartTime dash"
  by (simp add: updateSessionStats_def Let_def split: option.splits)

lemma onMessage_knee:
  "sessionStats (onMessage now (KneeDataMsg data) dash) =
     sessionStats (updateSessionStats now data dash)"
  "sessionStartTime (onMessage now (KneeDataMsg data) dash) = sessionStartTime dash"
  by (simp_all add: onMessage_def updateSessionStats_def Let_def split: option.splits)

lemma updateSessionStats_ignores_id:
  "sessionStats (updateSessionStats now (data\<lparr>ArduinoData.sessionId := sid\<rparr>) dash) =
     sessionStats (updateSessionStats now data dash)"
  by (simp add: updateSessionStats_def Let_def split: option.splits)

text \<open>
  C3, as stated, fails: while session \<^verbatim>\<open>s1\<close> is active, a frame that carries the session
  id \<^verbatim>\<open>other\<close> raises the reading count from 0 to 1.
\<close>

theorem mismatched_reading_counterexample:
  "currentSessionId active_dashboard = Some ''s1''
   \<and> ArduinoData.sessionId (frame_of ''other'' (Fin 50)) = ''other''
   \<and> map_option readingCount (sessionStats active_dashboard) = Some 0
   \<and> map_option readingCount
        (sessionStats (onMessage 2000 (KneeDataMsg (frame_of ''other'' (Fin 50))) active_dashboard))
       = Some 1"
  by (simp add: active_dashboard_eval onMessage_def updateSessionStats_def frame_of_def
      zero_stats_def Let_def initial_dashboard_def)

text \<open>
  C3, amended. A reading that arrives when no session is active (no start time, or no
  statistics) leaves the aggregates unchanged. While a session is active every frame
  updates count, max and mean; the session id of the frame is not compared with the
  active session, so frames that differ only in their session id give the same aggregates.
\<close>

theorem reading_without_session_is_noop:
  "(sessionStartTime dash = None \<or> sessionStartTime dash = Some 0 \<or> sessionStats dash = None
      \<longrightarrow> sessionStats (onMessage now (KneeDataMsg data) dash) = sessionStats dash)
   \<and> (sessionStartTime dash = Some start \<and> start \<noteq> 0 \<and> sessionStats dash = Some prev
      \<longrightarrow> (\<exists>st. sessionStats (onMessage now (KneeDataMsg data) dash) = Some st
            \<and> readingCount st = readingCount prev + 1
            \<and> maxAngle st = js_max (maxAngle prev) (kneeAngle data)
            \<and> avgAngle st =
                fdiv (fadd (fmul (avgAngle prev) (Fin (real (readingCount prev))))
                           (kneeAngle data))
                     (Fin (real (readingCount prev + 1)))))
   \<and> sessionStats (onMessage now (KneeDataMsg (data\<lparr>ArduinoData.sessionId := sid\<rparr>)) dash) =
       sessionStats (onMessage now (KneeDataMsg data) dash)"
proof (intro conjI impI)
  assume "sessionStartTime dash = None \<or> sessionStartTime dash = Some 0 \<or> sessionStats dash = None"
  then show "sessionStats (onMessage now (KneeDataMsg data) dash) = sessionStats dash"
    by (simp add: onMessage_knee(1) updateSessionStats_inactive)
next
  assume a: "sessionStartTime dash = Some start \<and> start \<noteq> 0 \<and> sessionStats dash = Some prev"
  show "\<exists>st. sessionStats (onMessage now (KneeDataMsg data) dash) = Some st
            \<and> readingCount st = readingCount prev + 1
            \<and> maxAngle st = js_max (maxAngle prev) (kneeAngle data)
            \<and> avgAngle st =
                fdiv (fadd (fmul (avgAngle prev) (Fin (real (readingCount prev))))
                           (kneeAngle data))
                     (Fin (real (readingCount prev + 1)))"
    using a updateSessionStats_active [of dash start prev now data]
    by (simp add: onMessage_knee(1))
next
  show "sessionStats (onMessage now (KneeDataMsg (data\<lparr>ArduinoData.sessionId := sid\<rparr>)) dash) =
       sessionStats (onMessage now (KneeDataMsg data) dash)"
    by (simp add: onMessage_knee(1) updateSessionStats_ignores_id)
qed

theorem reading_without_session_is_noop_witness:
  "sessionStats (onMessage 2000 (KneeDataMsg (frame_of ''s1'' (Fin 50))) initial_dashboard) = None
   \<and> map_option readingCount
        (sessionStats (onMessage 2000 (KneeDataMsg (frame_of ''s1'' (Fin 50))) active_dashboard))
       = Some 1
   \<and> sessionStats (onMessage 2000 (KneeDataMsg (frame_of ''other'' (Fin 50))) active_dashboard)
       = sessionStats (onMessage 2000 (KneeDataMsg (frame_of ''s1'' (Fin 50))) active_dashboard)"
proof -
  have i: "sessionStartTime initial_dashboard = None" "sessionStats initial_dashboard = None"
    by (simp_all add: initial_dashboard_def)
  have a: "sessionStartTime active_dashboard = Some 1000 \<and> (1000::nat) \<noteq> 0
      \<and> sessionStats active_dashboard = Some zero_stats"
    by (simp add: active_dashboard_eval)
  have f: "(frame_of ''s1'' (Fin 50))\<lparr>ArduinoData.sessionId := ''other''\<rparr> = frame_of ''other'' (Fin 50)"
    by (simp add: frame_of_def)
  show ?thesis
    using reading_without_session_is_noop [where dash = initial_dashboard and now = 2000
        and data = "frame_of ''s1'' (Fin 50)" and start = 1000 and prev = zero_stats
        and sid = "''other''"]
      reading_without_session_is_noop [where dash = active_dashboard and now = 2000
        and data = "frame_of ''s1'' (Fin 50)" and start = 1000 and prev = zero_stats
        and sid = "''other''"]
      i a f
    by (auto simp: zero_stats_def)
qed

lemma record_step:
  assumes "sessionStartTime dash = Some start" and "start \<noteq> 0"
    and "sessionStats dash = Some st" and "avgAngle st = Fin a" and "maxAngle st = Fin m"
    and "kneeAngle data = Fin x"
  shows "\<exists>st'. sessionStats (onMessage now (KneeDataMsg data) dash) = Some st'
     \<and> readingCount st' = readingCount st + 1
     \<and> avgAngle st' = Fin ((a * real (readingCount st) + x) / real (readingCount st + 1))
     \<and> maxAngle st' = Fin (max m x)"
  using assms updateSessionStats_active [of dash start st now data]
  by (auto simp: onMessage_knee(1) js_max_def max_def)

lemma recordReadings_Cons:
  "recordReadings (f # fs) dash = recordReadings fs (onMessage (fst f) (KneeDataMsg (snd f)) dash)"
  by (simp add: recordReadings_def)

lemma record_run:
  assumes "sessionStartTime dash = Some start" and "start \<noteq> 0"
    and "sessionStats dash = Some st" and "avgAngle st = Fin a" and "maxAngle st = Fin m"
    and "\<forall>f \<in> set fs. isfinite (kneeAngle (snd f))"
  shows "\<exists>st' a'. sessionStats (recordReadings fs dash) = Some st'
     \<and> readingCount st' = readingCount st + length fs
     \<and> avgAngle st' = Fin a'
     \<and> a' * real (readingCount st + length fs) = a * real (readingCount st) + sum_list (readings fs)
     \<and> maxAngle st' = Fin (fold max (readings fs) m)"
  using assms
proof (induction fs arbitrary: dash st a m)
  case Nil
  then show ?case by (simp add: recordReadings_def readings_def)
next
  case (Cons f fs)
  from Cons.prems(6) obtain x where x: "kneeAngle (snd f) = Fin x"
    by (cases "kneeAngle (snd f)") auto
  let ?dash = "onMessage (fst f) (KneeDataMsg (snd f)) dash"
  let ?n = "readingCount st"
  from record_step [OF Cons.prems(1-5) x, of "fst f"]
  obtain st1 where st1: "sessionStats ?dash = Some st1" "readingCount st1 = ?n + 1"
    "avgAngle st1 = Fin ((a * real ?n + x) / real (?n + 1))" "maxAngle st1 = Fin (max m x)"
    by blast
  have start: "sessionStartTime ?dash = Some start"
    using Cons.prems(1) by (simp add: onMessage_knee(2))
  have rest: "\<forall>g \<in> set fs. isfinite (kneeAngle (snd g))"
    using Cons.prems(6) by simp
  from Cons.IH [OF start Cons.prems(2) st1(1) st1(3) st1(4) rest]
  obtain st' a' where r: "sessionStats (recordReadings fs ?dash) = Some st'"
    "readingCount st' = readingCount st1 + length fs" "avgAngle st' = Fin a'"
    "a' * real (readingCount st1 + length fs)
       = (a * real ?n + x) / real (?n + 1) * real (readingCount st1) + sum_list (readings fs)"
    "maxAngle st' = Fin (fold max (readings fs) (max m x))"
    by blast
  have "(a * real ?n + x) / real (?n + 1) * real (readingCount st1) = a * real ?n + x"
    by (simp add: st1(2))
  with r(4) have "a' * real (?n + length (f # fs)) = a * real ?n + sum_list (readings (f # fs))"
    by (simp add: st1(2) readings_def x)
  moreover have "fold max (readings (f # fs)) m = fold max (readings fs) (max m x)"
    by (simp add: readings_def x max.commute)
  ultimately show ?case
    using r by (simp add: recordReadings_Cons st1(2))
qed

text \<open>
  C4, as stated, fails for the running max: it starts at 0, so after the single reading -5
  it is 0, while the maximum of the readings is -5 (the mean is -5, as claimed).
\<close>

theorem running_max_counterexample:
  "map_option maxAngle
     (sessionStats (recordReadings [(2000, frame_of ''s1'' (Fin (- 5)))] active_dashboard))
     = Some (Fin 0)
   \<and> map_option avgAngle
     (sessionStats (recordReadings [(2000, frame_of ''s1'' (Fin (- 5)))] active_dashboard))
     = Some (Fin (- 5))
   \<and> Max (set (readings [(2000, frame_of ''s1'' (Fin (- 5)))])) = - 5"
  by (simp add: recordReadings_def active_dashboard_eval onMessage_def updateSessionStats_def
      frame_of_def zero_stats_def Let_def initial_dashboard_def js_max_def readings_def)

text \<open>
  C4, amended. For every sequence of finite readings recorded in an active session that
  starts from the zero statistics, the count is the number of readings, the running mean
  kept by \<open>mean' = (mean * n + x) / (n + 1)\<close> equals the sum of the readings divided by
  their number (0 for no reading), under exact arithmetic, and the running max equals the
  maximum of 0 and all readings so far; it is the maximum of the readings as soon as one
  of them is not negative.
\<close>

theorem incremental_mean_and_max:
  assumes "sessionStartTime dash = Some start" and "start \<noteq> 0"
    and "sessionStats dash = Some zero_stats"
    and "\<forall>f \<in> set fs. isfinite (kneeAngle (snd f))"
  shows "\<exists>st. sessionStats (recordReadings fs dash) = Some st
     \<and> readingCount st = length fs
     \<and> avgAngle st = Fin (if fs = [] then 0 else sum_list (readings fs) / real (length fs))
     \<and> maxAngle st = Fin (Max (insert 0 (set (readings fs))))
     \<and> ((\<exists>x \<in> set (readings fs). 0 \<le> x) \<longrightarrow> maxAngle st = Fin (Max (set (readings fs))))"
proof -
  have z: "avgAngle zero_stats = Fin 0" "maxAngle zero_stats = Fin 0" "readingCount zero_stats = 0"
    by (simp_all add: zero_stats_def)
  from record_run [OF assms(1-3) z(1) z(2) assms(4)]
  obtain st a' where r: "sessionStats (recordReadings fs dash) = Some st"
    "readingCount st = length fs" "avgAngle st = Fin a'"
    "a' * real (length fs) = sum_list (readings fs)"
    "maxAngle st = Fin (fold max (readings fs) 0)"
    by (auto simp: z(3))
  have mx: "fold max (readings fs) 0 = Max (insert 0 (set (readings fs)))"
    using Max.set_eq_fold [of 0 "readings fs"] by simp
  have avg: "a' = (if fs = [] then 0 else sum_list (readings fs) / real (length fs))"
  proof (cases "fs = []")
    case True
    with assms(3) r(1) r(3) z(1) show ?thesis by (simp add: recordReadings_def)
  next
    case False
    then have "real (length fs) \<noteq> 0" by simp
    with r(4) show ?thesis using False by (simp add: field_simps)
  qed
  have mx2: "Max (insert 0 (set (readings fs))) = Max (set (readings fs))"
    if "\<exists>x \<in> set (readings fs). 0 \<le> x"
  proof -
    from that obtain x where x: "x \<in> set (readings fs)" "0 \<le> x" by blast
    then have ne: "set (readings fs) \<noteq> {}" by auto
    have "0 \<le> Max (set (readings fs))"
      using x by (meson List.finite_set Max_ge order_trans)
    then show ?thesis
      using ne by (simp add: max_def)
  qed
  show ?thesis
    using r(1) r(2) r(3) r(5) avg mx mx2 by auto
qed

theorem incremental_mean_and_max_witness:
  "map_option avgAngle
     (sessionStats (recordReadings
        [(2000, frame_of ''s1'' (Fin 30)), (2100, frame_of ''s1'' (Fin 60))] active_dashboard))
     = Some (Fin 45)
   \<and> map_option maxAngle
     (sessionStats (recordReadings
        [(2000, frame_of ''s1'' (Fin 30)), (2100, frame_of ''s1'' (Fin 60))] active_dashboard))
     = Some (Fin 60)"
proof -
  let ?fs = "[(2000, frame_of ''s1'' (Fin 30)), (2100, frame_of ''s1'' (Fin 60))]"
  have a: "sessionStartTime active_dashboard = Some 1000" "(1000::nat) \<noteq> 0"
    "sessionStats active_dashboard = Some zero_stats"
    by (simp_all add: active_dashboard_eval)
  have f: "\<forall>f \<in> set ?fs. isfinite (kneeAngle (snd f))"
    by (simp add: frame_of_def)
  have r: "readings ?fs = [30, 60]"
    by (simp add: readings_def frame_of_def)
  show ?thesis
    using incremental_mean_and_max [OF a f] by (auto simp: r)
qed

subsection \<open>Frame parser\<close>

lemma z_number_Some: "z_number v = Some n \<Longrightarrow> v = Some (JNumber n) \<and> \<not> isnan n"
  by (auto simp: z_number_def split: option.splits json.splits if_splits)









lemma handleLines_Cons:
  "handleLines jp (l # ls) = handleArduinoData jp l @ handleLines jp ls"
  by (simp add: handleLines_def)





subsection \<open>Link transport\<close>

lemma isOpen_set_port_state:
  "isOpen (set_port_state h st s) k =
     (if k = h \<and> h < length (ports s) then st = Open else isOpen s k)"
proof (cases "k = h")
  case True
  then show ?thesis by (simp add: isOpen_def set_port_state_def)
next
  case False
  then have "(ports s)[h := (fst (ports s ! h), st)] ! k = ports s ! k"
    by (simp add: nth_list_update_neq)
  with False show ?thesis by (simp add: isOpen_def set_port_state_def)
qed

lemma isOpen_other_fields [simp]:
  "isOpen (s\<lparr>isConnected := c\<rparr>) k = isOpen s k"
  "isOpen (s\<lparr>currentPortPath := cp\<rparr>) k = isOpen s k"
  "isOpen (s\<lparr>emitted := es\<rparr>) k = isOpen s k"
  "isOpen (s\<lparr>port := po\<rparr>) k = isOpen s k"
  "isOpen (s\<lparr>parser := pa\<rparr>) k = isOpen s k"
  "isOpen (s\<lparr>written := w\<rparr>) k = isOpen s k"
  by (simp_all add: isOpen_def)

lemma isOpen_on_close: "isOpen (on_close h s) k = (isOpen s k \<and> k \<noteq> h)"
  by (auto simp: on_close_def isOpen_set_port_state) (simp add: isOpen_def)

lemma on_close_fields:
  "port (on_close h s) = port s"
  "isConnected (on_close h s) = False"
  "length (ports (on_close h s)) = length (ports s)"
  "emitted (on_close h s) = emitted s @ [Disconnected]"
  by (simp_all add: on_close_def set_port_state_def)

lemma disconnect_fields:
  "port (disconnect s) = None"
  "isConnected (disconnect s) = False"
  "isOpen (disconnect s) k = (isOpen s k \<and> port s \<noteq> Some k)"
  "length (ports (disconnect s)) = length (ports s)"
  by (auto simp: disconnect_def isOpen_on_close on_close_fields split: option.splits)

lemma disconnect_emitted:
  "emitted (disconnect s) =
     emitted s @ (case port s of None \<Rightarrow> [] | Some h \<Rightarrow> if isOpen s h then [Disconnected] else [])"
  by (simp add: disconnect_def on_close_fields split: option.splits)

lemma inv_no_open_after_disconnect:
  "transport_inv s \<Longrightarrow> \<not> isOpen (disconnect s) k"
  by (auto simp: disconnect_fields transport_inv_def)

lemma inv_not_connected_no_open:
  "transport_inv s \<Longrightarrow> \<not> isConnected s \<Longrightarrow> \<not> isOpen s k"
  by (auto simp: transport_inv_def)

lemma inv_disconnect: "transport_inv s \<Longrightarrow> transport_inv (disconnect s)"
  using inv_no_open_after_disconnect [of s]
  by (simp add: transport_inv_def disconnect_fields(2))

lemma before_open_quiet:
  assumes "transport_inv s"
  shows "\<not> isOpen (before_open s) k" and "\<not> isConnected (before_open s)"
  using assms inv_no_open_after_disconnect [of s k] inv_not_connected_no_open [of s k]
  by (auto simp: before_open_def disconnect_fields(2))

lemma connect_cases:
  "fst (connect link p s) =
     (let s1 = before_open s; h = length (ports s1);
          s2 = s1\<lparr>ports := ports s1 @ [(p, Opening)], port := Some h, parser := Some h\<rparr>
      in case link of
           ConstructorThrows \<Rightarrow> s1\<lparr>emitted := emitted s1 @ [ErrorEvent]\<rparr>
         | FiresOpen \<Rightarrow> (set_port_state h Open s2)
               \<lparr>isConnected := True, currentPortPath := Some p,
                emitted := emitted s2 @ [Connected p]\<rparr>
         | FiresError \<Rightarrow> (set_port_state h Closed s2)\<lparr>emitted := emitted s2 @ [ErrorEvent]\<rparr>
         | LinkSilent \<Rightarrow> s2)"
  by (cases link)
    (simp_all add: connect_def connect_start_def on_open_def on_error_def before_open_def Let_def)

lemma isOpen_connect:
  assumes "transport_inv s"
  shows "isOpen (fst (connect link p s)) k
     = (link = FiresOpen \<and> k = length (ports (before_open s)))"
proof -
  have q: "\<And>j. \<not> isOpen (before_open s) j"
    using before_open_quiet(1) [OF assms] .
  then have q': "\<And>j. j < length (ports (before_open s)) \<Longrightarrow> snd (ports (before_open s) ! j) \<noteq> Open"
    by (simp add: isOpen_def)
  show ?thesis
    using q' by (cases link)
      (auto simp: connect_cases Let_def isOpen_def set_port_state_def nth_append)
qed

lemma connect_port_connected:
  assumes "transport_inv s"
  shows "isConnected (fst (connect link p s)) = (link = FiresOpen)"
    and "link = FiresOpen \<Longrightarrow> port (fst (connect link p s)) = Some (length (ports (before_open s)))"
  using before_open_quiet(2) [OF assms]
  by (cases link; simp add: connect_cases Let_def set_port_state_def)+

lemma inv_connect:
  assumes "transport_inv s"
  shows "transport_inv (fst (connect link p s))"
proof (cases "link = FiresOpen")
  case True
  then show ?thesis
    using isOpen_connect [OF assms, of link p] connect_port_connected [OF assms, of link p]
    by (simp add: transport_inv_def)
next
  case False
  then show ?thesis
    using isOpen_connect [OF assms, of link p] connect_port_connected(1) [OF assms, of link p]
    by (simp add: transport_inv_def)
qed

lemma link_closed_fields:
  "port (link_closed s) = port s"
  "isOpen (link_closed s) k = (isOpen s k \<and> port s \<noteq> Some k)"
  "isConnected (link_closed s) = (isConnected s \<and> \<not> (\<exists>h. port s = Some h \<and> isOpen s h))"
proof -
  show "port (link_closed s) = port s"
    by (simp add: link_closed_def on_close_fields split: option.splits)
  show "isOpen (link_closed s) k = (isOpen s k \<and> port s \<noteq> Some k)"
  proof (cases "port s")
    case None
    then show ?thesis by (simp add: link_closed_def)
  next
    case (Some h)
    then show ?thesis
      by (cases "isOpen s h") (auto simp: link_closed_def isOpen_on_close)
  qed
  show "isConnected (link_closed s) = (isConnected s \<and> \<not> (\<exists>h. port s = Some h \<and> isOpen s h))"
  proof (cases "port s")
    case None
    then show ?thesis by (simp add: link_closed_def)
  next
    case (Some h)
    then show ?thesis
      by (cases "isOpen s h") (simp_all add: link_closed_def on_close_fields)
  qed
qed

lemma inv_link_closed:
  assumes "transport_inv s"
  shows "transport_inv (link_closed s)"
proof -
  have "\<not> isOpen (link_closed s) k" for k
    using assms by (auto simp: link_closed_fields(2) transport_inv_def)
  moreover have "\<not> isConnected (link_closed s)"
    using assms by (auto simp: link_closed_fields(3) transport_inv_def)
  ultimately show ?thesis
    by (simp add: transport_inv_def)
qed

lemma inv_initial: "transport_inv initial_service"
  by (simp add: transport_inv_def initial_service_def isOpen_def)

lemma inv_step: "transport_inv s \<Longrightarrow> transport_inv (transport_step c s)"
  by (cases c) (simp_all add: transport_step_def inv_connect inv_disconnect inv_link_closed)

lemma inv_run: "transport_inv s \<Longrightarrow> transport_inv (transport_run cs s)"
  unfolding transport_run_def
  by (induction cs arbitrary: s) (simp_all add: inv_step)

lemma inv_live_le_1:
  assumes "transport_inv s"
  shows "length (live_handles s) \<le> 1"
proof (cases "port s")
  case None
  with assms have "live_handles s = []"
    by (auto simp: live_handles_def transport_inv_def filter_empty_conv)
  then show ?thesis by simp
next
  case (Some h)
  have d: "distinct (live_handles s)"
    by (simp add: live_handles_def)
  have "set (live_handles s) \<subseteq> {h}"
    using assms Some by (auto simp: live_handles_def transport_inv_def)
  then have "card (set (live_handles s)) \<le> card {h}"
    by (intro card_mono) simp_all
  with d show ?thesis
    by (simp add: distinct_card)
qed

lemma connected_events_append:
  "connected_events (s\<lparr>emitted := emitted s @ es\<rparr>)
     = connected_events s
       + length (filter (\<lambda>e. case e of Connected p \<Rightarrow> True | _ \<Rightarrow> False) es)"
  by (simp add: connected_events_def)

lemma connected_events_disconnect: "connected_events (disconnect s) = connected_events s"
  by (simp add: connected_events_def disconnect_emitted split: option.splits)

lemma connected_events_before_open: "connected_events (before_open s) = connected_events s"
  by (simp add: before_open_def connected_events_disconnect)

lemma connected_events_link_closed: "connected_events (link_closed s) = connected_events s"
  by (simp add: connected_events_def link_closed_def on_close_fields split: option.splits)

lemma connected_events_connect:
  "connected_events (fst (connect link p s))
     = connected_events s + (if link = FiresOpen then 1 else 0)"
  using connected_events_before_open [of s]
  by (cases link) (simp_all add: connect_cases Let_def connected_events_def set_port_state_def)

lemma connected_events_step:
  "connected_events (transport_step c s) = connected_events s + successful_opens [c]"
  by (cases c)
    (simp_all add: transport_step_def connected_events_connect connected_events_disconnect
      connected_events_link_closed successful_opens_def)

lemma successful_opens_Cons:
  "successful_opens (c # cs) = successful_opens [c] + successful_opens cs"
  by (simp add: successful_opens_def)

lemma connected_events_run:
  "connected_events (transport_run cs s) = connected_events s + successful_opens cs"
proof (induction cs arbitrary: s)
  case Nil
  then show ?case by (simp add: transport_run_def successful_opens_def)
next
  case (Cons c cs)
  have "transport_run (c # cs) s = transport_run cs (transport_step c s)"
    by (simp add: transport_run_def)
  then show ?case
    using Cons.IH [of "transport_step c s"] successful_opens_Cons [of c cs]
    by (simp add: connected_events_step)
qed

lemma reconnect_closes_first:
  assumes "transport_inv s" and "isConnected s"
  shows "\<exists>h. port s = Some h \<and> isOpen s h
     \<and> \<not> isOpen (fst (connect FiresOpen p s)) h
     \<and> live_handles (fst (connect FiresOpen p s)) = [length (ports s)]
     \<and> emitted (fst (connect FiresOpen p s)) = emitted s @ [Disconnected, Connected p]"
proof -
  from assms obtain h where h: "port s = Some h" "isOpen s h"
    by (auto simp: transport_inv_def)
  have len: "length (ports (before_open s)) = length (ports s)"
    by (simp add: before_open_def disconnect_fields(4))
  have hl: "h < length (ports s)"
    using h(2) by (simp add: isOpen_def)
  have o: "\<And>k. isOpen (fst (connect FiresOpen p s)) k = (k = length (ports s))"
    by (simp add: isOpen_connect [OF assms(1)] len)
  have lp: "length (ports (fst (connect FiresOpen p s))) = Suc (length (ports s))"
    using len by (simp add: connect_cases Let_def set_port_state_def)
  have live: "live_handles (fst (connect FiresOpen p s)) = [length (ports s)]"
    unfolding live_handles_def lp
    by (simp add: o filter_empty_conv)
  have em: "emitted (fst (connect FiresOpen p s)) = emitted s @ [Disconnected, Connected p]"
    using assms(2) h
    by (simp add: connect_cases Let_def before_open_def disconnect_emitted set_port_state_def)
  show ?thesis
    using h hl o live em by auto
qed

text \<open>
  C8. The invariant fails when a second \<^verbatim>\<open>connect\<close> is called before the port of the first
  has opened: the service is not yet marked connected, so the first port is not closed and
  is no longer referenced; both ports then open. Two handles are live, the service holds
  the second only, and two connected events were emitted.
\<close>

theorem overlapping_connects_two_live:
  "live_handles (event_run overlapping_connects initial_service) = [0, 1]
   \<and> port (event_run overlapping_connects initial_service) = Some 1
   \<and> ports (event_run overlapping_connects initial_service)
       = [(''COM3'', Open), (''COM4'', Open)]
   \<and> emitted (event_run overlapping_connects initial_service)
       = [Connected ''COM3'', Connected ''COM4'']"
proof -
  have e: "event_run overlapping_connects initial_service =
     \<lparr>ports = [(''COM3'', Open), (''COM4'', Open)], port = Some 1, parser = Some 1,
      isConnected = True, currentPortPath = Some ''COM4'',
      emitted = [Connected ''COM3'', Connected ''COM4''], written = []\<rparr>"
    by (simp add: overlapping_connects_def event_run_def event_step_def connect_start_def
        on_open_def set_port_state_def initial_service_def Let_def)
  show ?thesis
    by (simp add: e live_handles_def isOpen_def upt_rec)
qed

text \<open>
  When the calls are made one after the other, each on the state the previous one left
  (connect with whatever the new link does: open, fail, throw, or never answer; disconnect;
  the loss of the open link), the invariant holds. After every such sequence, from the
  initial service, at most one port is open, and the number of connected events emitted
  equals the number of opens that succeeded. When the service is connected, a further
  connect that opens closes the port held before (the disconnected event precedes the
  connected event), and the new port is then the only open one.
\<close>

theorem one_live_transport:
  "length (live_handles (transport_run cs initial_service)) \<le> 1
   \<and> connected_events (transport_run cs initial_service) = successful_opens cs
   \<and> (isConnected (transport_run cs initial_service) \<longrightarrow>
        (\<exists>h. port (transport_run cs initial_service) = Some h
           \<and> isOpen (transport_run cs initial_service) h
           \<and> \<not> isOpen (fst (connect FiresOpen p (transport_run cs initial_service))) h
           \<and> live_handles (fst (connect FiresOpen p (transport_run cs initial_service)))
               = [length (ports (transport_run cs initial_service))]
           \<and> emitted (fst (connect FiresOpen p (transport_run cs initial_service)))
               = emitted (transport_run cs initial_service) @ [Disconnected, Connected p]))"
proof -
  have i: "transport_inv (transport_run cs initial_service)"
    by (rule inv_run) (rule inv_initial)
  have "connected_events initial_service = 0"
    by (simp add: connected_events_def initial_service_def)
  then have c: "connected_events (transport_run cs initial_service) = successful_opens cs"
    by (simp only: connected_events_run add_0)
  show ?thesis
    using inv_live_le_1 [OF i] c reconnect_closes_first [OF i, of p] by blast
qed

lemma reconnect_calls_eval:
  "transport_run reconnect_calls initial_service =
     \<lparr>ports = [(''COM3'', Closed), (''COM3'', Closed), (''COM3'', Open)],
      port = Some 2, parser = Some 2, isConnected = True, currentPortPath = Some ''COM3'',
      emitted = [Connected ''COM3'', Disconnected, Connected ''COM3'', Disconnected,
                 Connected ''COM3''],
      written = []\<rparr>"
  by (simp add: reconnect_calls_def transport_run_def transport_step_def connect_def
      connect_start_def on_open_def disconnect_def on_close_def isOpen_def set_port_state_def
      initial_service_def Let_def)

theorem one_live_transport_witness:
  "live_handles (transport_run reconnect_calls initial_service) = [2]
   \<and> connected_events (transport_run reconnect_calls initial_service) = 3
   \<and> successful_opens reconnect_calls = 3
   \<and> isConnected (transport_run reconnect_calls initial_service)
   \<and> live_handles (fst (connect FiresOpen ''COM4'' (transport_run reconnect_calls initial_service)))
       = [3]"
proof -
  have c: "isConnected (transport_run reconnect_calls initial_service)"
    by (simp add: reconnect_calls_eval)
  have l: "live_handles (transport_run reconnect_calls initial_service) = [2]"
    by (simp add: reconnect_calls_eval live_handles_def isOpen_def upt_rec)
  have s: "successful_opens reconnect_calls = 3"
    by (simp add: successful_opens_def reconnect_calls_def)
  show ?thesis
    using one_live_transport [of reconnect_calls "''COM4''"] c l s
    by (auto simp: reconnect_calls_eval)
qed

subsection \<open>Waiting for the link and the endpoint\<close>

lemma connect_result:
  "snd (connect link p s) =
     (case link of ConstructorThrows \<Rightarrow> Resolved False | FiresOpen \<Rightarrow> Resolved True
      | FiresError \<Rightarrow> Rejected | LinkSilent \<Rightarrow> Pending)"
  by (cases link) (simp_all add: connect_def Let_def split: prod.splits)

lemma sendCommand_result:
  "snd (sendCommand wb c s) =
     (if port s = None \<or> \<not> isConnected s then Resolved False
      else case wb of WriteOk \<Rightarrow> Resolved True | WriteFails \<Rightarrow> Resolved False
           | WriteSilent \<Rightarrow> Pending)"
  by (cases wb) (simp_all add: sendCommand_def)

lemma sendSensorData_result:
  "snd (sendSensorData fb data n) = (if fb = FetchSilent then Pending else Resolved ())"
  by (cases fb)
    (auto simp: sendSensorData_def split: option.splits sum.splits)

text \<open>
  C9, as stated, fails: a connect whose link fires neither \<^verbatim>\<open>open\<close> nor \<^verbatim>\<open>error\<close> stays
  pending and never fails; so does a command send whose write callback is never called,
  and a sensor-data request that \<^verbatim>\<open>fetch\<close> never settles.
\<close>

theorem unbounded_wait_counterexample:
  "snd (connect LinkSilent ''COM3'' initial_service) = Pending
   \<and> snd (sendCommand WriteSilent ''GET_STATUS'' connected_service) = Pending
   \<and> snd (sendSensorData FetchSilent sample_frame initial_n8n) = Pending"
  by (simp add: connect_result sendCommand_result sendSensorData_result connected_service_eval)

text \<open>
  C9, amended. No operation carries a bounded wait of its own. A connection attempt
  settles exactly when the link answers: it resolves to true when the link opens, rejects
  when the link reports an error first, resolves to false when the port cannot be
  constructed, and stays pending when the link never answers. A command send fails at once
  when the link is not connected and otherwise stays pending exactly when the write
  callback is never called. A sensor-data request to the analytics endpoint stays pending
  exactly when \<^verbatim>\<open>fetch\<close> never settles.
\<close>

theorem operations_settle_only_with_the_link:
  "(snd (connect link p s) = Pending \<longleftrightarrow> link = LinkSilent)
   \<and> (snd (connect link p s) = Resolved True \<longleftrightarrow> link = FiresOpen)
   \<and> (snd (connect link p s) = Rejected \<longleftrightarrow> link = FiresError)
   \<and> (snd (connect link p s) = Resolved False \<longleftrightarrow> link = ConstructorThrows)
   \<and> (snd (sendCommand wb c s) = Pending
        \<longleftrightarrow> port s \<noteq> None \<and> isConnected s \<and> wb = WriteSilent)
   \<and> (port s = None \<or> \<not> isConnected s \<longrightarrow> sendCommand wb c s = (s, Resolved False))
   \<and> (snd (sendSensorData fb data n) = Pending \<longleftrightarrow> fb = FetchSilent)"
proof -
  have c: "(snd (connect link p s) = Pending \<longleftrightarrow> link = LinkSilent)
   \<and> (snd (connect link p s) = Resolved True \<longleftrightarrow> link = FiresOpen)
   \<and> (snd (connect link p s) = Rejected \<longleftrightarrow> link = FiresError)
   \<and> (snd (connect link p s) = Resolved False \<longleftrightarrow> link = ConstructorThrows)"
    by (cases link) (simp_all add: connect_result)
  have w: "snd (sendCommand wb c s) = Pending
        \<longleftrightarrow> port s \<noteq> None \<and> isConnected s \<and> wb = WriteSilent"
    by (cases wb) (simp_all add: sendCommand_result)
  have d: "port s = None \<or> \<not> isConnected s \<longrightarrow> sendCommand wb c s = (s, Resolved False)"
    by (auto simp: sendCommand_def)
  have f: "snd (sendSensorData fb data n) = Pending \<longleftrightarrow> fb = FetchSilent"
    by (simp add: sendSensorData_result)
  show ?thesis
    using c w d f by blast
qed

theorem operations_settle_only_with_the_link_witness:
  "snd (connect LinkSilent ''COM3'' initial_service) = Pending
   \<and> snd (connect FiresOpen ''COM3'' initial_service) = Resolved True
   \<and> snd (connect FiresError ''COM3'' initial_service) = Rejected
   \<and> sendCommand WriteSilent ''GET_STATUS'' initial_service = (initial_service, Resolved False)
   \<and> snd (sendCommand WriteSilent ''GET_STATUS'' connected_service) = Pending
   \<and> snd (sendSensorData FetchSilent sample_frame initial_n8n) = Pending"
proof -
  have i: "port initial_service = None"
    by (simp add: initial_service_def)
  have c: "port connected_service \<noteq> None \<and> isConnected connected_service"
    by (simp add: connected_service_eval)
  show ?thesis
    using operations_settle_only_with_the_link [where link = LinkSilent and p = "''COM3''"
        and s = initial_service and wb = WriteSilent and c = "''GET_STATUS''"
        and fb = FetchSilent and data = sample_frame and n = initial_n8n]
      operations_settle_only_with_the_link [where link = FiresOpen and p = "''COM3''"
        and s = connected_service and wb = WriteSilent and c = "''GET_STATUS''"
        and fb = FetchSilent and data = sample_frame and n = initial_n8n]
      operations_settle_only_with_the_link [where link = FiresError and p = "''COM3''"
        and s = initial_service and wb = WriteSilent and c = "''GET_STATUS''"
        and fb = FetchSilent and data = sample_frame and n = initial_n8n]
      i c
    by (simp add: connect_result)
qed

end
